theory Spec2Isabelle
  imports Complex_Main "HOL-Library.AList"
begin

section \<open>Data model (types.ts)\<close>

text \<open>
  JavaScript strings are modelled as \<^typ>\<open>string\<close>: one \<^typ>\<open>char\<close> per code unit, for
  the code units below 256. The numbers of parsed values are modelled where they are
  integers; the progress percentage is a double.
\<close>

datatype QuestionType = OPEN_ENDED | MULTIPLE_CHOICE | RATING_SCALE

record question =
  q_id :: string
  q_text :: string
  q_type :: QuestionType
  q_options :: "string list option"

record survey =
  title :: string
  description :: string
  questions :: "question list"

record persona =
  p_id :: string
  p_name :: string
  p_age :: int
  p_occupation :: string
  p_traits :: string
  p_painPoints :: string

datatype Step = SETUP | PERSONAS | SIMULATION | RESULTS

text \<open>
  A value produced by \<open>JSON.parse\<close>. The service code treats the parsed text as
  \<open>any\<close>, so the answers of a response are kept as such values. An object is the list of
  its own properties; \<open>map_of\<close> reads one, \<open>None\<close> standing for \<open>undefined\<close>.
\<close>

datatype json =
    JNull
  | JBool bool
  | JNum int
  | JStr string
  | JArr "json list"
  | JObj "(string \<times> json) list"

record survey_response =
  personaId :: string
  answers :: "json list"

text \<open>What a rejected promise or a \<open>throw\<close> carries.\<close>

datatype error =
    ApiFailure
  | Error string
  | SyntaxError
  | TypeError

text \<open>
  The outcome of one \<open>ai.models.generateContent\<close> call: it throws, or it returns a
  response whose \<open>text\<close> is \<open>undefined\<close> or a string.
\<close>

datatype api_result = Throws | Response "string option"

text \<open>\<open>console.error\<close> calls.\<close>

datatype log_entry =
    SimulationFailedFor string error
  | ErrorSimulating string
  | AnalysisFailedLog error

section \<open>Built-in operations of the language used by the service\<close>

text \<open>
  White space and line terminators as \<open>parseInt\<close> and \<open>trim\<close> skip them, among the
  code units below 256: TAB, LF, VT, FF, CR, SPACE, NBSP.
\<close>

definition isWhiteSpace :: "char \<Rightarrow> bool" where
  "isWhiteSpace c = ((of_char c :: nat) \<in> {9, 10, 11, 12, 13, 32, 160})"

definition digitValue :: "char \<Rightarrow> nat option" where
  "digitValue c =
     (let n = (of_char c :: nat) in
      if 48 \<le> n \<and> n \<le> 57 then Some (n - 48)
      else if 97 \<le> n \<and> n \<le> 122 then Some (n - 87)
      else if 65 \<le> n \<and> n \<le> 90 then Some (n - 55)
      else None)"

definition isRadixDigit :: "nat \<Rightarrow> char \<Rightarrow> bool" where
  "isRadixDigit R c = (case digitValue c of None \<Rightarrow> False | Some d \<Rightarrow> d < R)"

definition digitOf :: "char \<Rightarrow> nat" where
  "digitOf c = (case digitValue c of None \<Rightarrow> 0 | Some d \<Rightarrow> d)"

text \<open>
  \<open>parseInt(s)\<close> with no radix argument: skip leading white space, read a sign, read the
  prefix \<open>0x\<close>/\<open>0X\<close> (radix 16, else radix 10), take the longest run of digits; no digit
  gives \<open>NaN\<close> (\<open>None\<close>). The result is the mathematical integer: the rounding to a
  double that the engine applies above \<open>2^53\<close> is outside the model.
\<close>

definition parseInt :: "string \<Rightarrow> int option" where
  "parseInt inputString =
     (let S = dropWhile isWhiteSpace inputString;
          sign = (if S \<noteq> [] \<and> hd S = CHR ''-'' then - 1 else (1::int));
          S1 = (if S \<noteq> [] \<and> (hd S = CHR ''+'' \<or> hd S = CHR ''-'') then tl S else S);
          hex = (take 2 S1 = ''0x'' \<or> take 2 S1 = ''0X'');
          R = (if hex then 16 else 10);
          S2 = (if hex then drop 2 S1 else S1);
          Z = takeWhile (isRadixDigit R) S2
      in if Z = [] then None
         else Some (sign * int (foldl (\<lambda>acc c. acc * R + digitOf c) 0 Z)))"

text \<open>Decimal rendering of an integer (\<open>Number.prototype.toString\<close> on an integer).\<close>

definition decimalDigit :: "nat \<Rightarrow> char" where
  "decimalDigit d = ''0123456789'' ! d"

fun showNat :: "nat \<Rightarrow> string" where
  "showNat n =
     (if n < 10 then [decimalDigit n]
      else showNat (n div 10) @ [decimalDigit (n mod 10)])"

declare showNat.simps [simp del]

definition showInt :: "int \<Rightarrow> string" where
  "showInt i = (if i < 0 then CHR ''-'' # showNat (nat (- i)) else showNat (nat i))"

text \<open>\<open>Array.prototype.join\<close> on strings.\<close>

fun joinWith :: "string \<Rightarrow> string list \<Rightarrow> string" where
  "joinWith sep [] = []"
| "joinWith sep [x] = x"
| "joinWith sep (x # y # ys) = x @ sep @ joinWith sep (y # ys)"

text \<open>
  The conversion of a parsed value to a string, as a template literal and \<open>parseInt\<close>
  perform it. An array joins its elements with commas, \<open>null\<close> elements giving the empty
  string. An object gives \<open>[object Object]\<close>, unless it has an own property named
  \<open>toString\<close>: that property holds a parsed value, which is not callable, the inherited
  \<open>valueOf\<close> returns the object itself, and the conversion throws a \<open>TypeError\<close>.
\<close>

fun ToString :: "json \<Rightarrow> error + string"
  and ToStringElems :: "json list \<Rightarrow> error + string list" where
  "ToString JNull = Inr ''null''"
| "ToString (JBool b) = Inr (if b then ''true'' else ''false'')"
| "ToString (JNum n) = Inr (showInt n)"
| "ToString (JStr s) = Inr s"
| "ToString (JArr xs) =
     (case ToStringElems xs of Inl e \<Rightarrow> Inl e | Inr ss \<Rightarrow> Inr (joinWith '','' ss))"
| "ToString (JObj kvs) =
     (if map_of kvs ''toString'' \<noteq> None then Inl TypeError else Inr ''[object Object]'')"
| "ToStringElems [] = Inr []"
| "ToStringElems (x # xs) =
     (case (if x = JNull then Inr [] else ToString x) of
        Inl e \<Rightarrow> Inl e
      | Inr s \<Rightarrow> (case ToStringElems xs of Inl e \<Rightarrow> Inl e | Inr ss \<Rightarrow> Inr (s # ss)))"

text \<open>The same conversion on a property read, which may be \<open>undefined\<close>.\<close>

definition ToStringProp :: "json option \<Rightarrow> error + string" where
  "ToStringProp v = (case v of None \<Rightarrow> Inr ''undefined'' | Some j \<Rightarrow> ToString j)"

text \<open>\<open>xs.map(f)\<close> where \<open>f\<close> may throw: the first exception ends the traversal.\<close>

fun mapE :: "('a \<Rightarrow> error + 'b) \<Rightarrow> 'a list \<Rightarrow> error + 'b list" where
  "mapE f [] = Inr []"
| "mapE f (x # xs) =
     (case f x of
        Inl e \<Rightarrow> Inl e
      | Inr y \<Rightarrow> (case mapE f xs of Inl e \<Rightarrow> Inl e | Inr ys \<Rightarrow> Inr (y # ys)))"

subsection \<open>Double-precision arithmetic\<close>

text \<open>
  The numbers of the language are IEEE 754 doubles. A finite double is modelled by the
  rational it denotes, and an operation by the exact operation followed by the rounding
  \<open>fl\<close> to the nearest double, ties to the even significand. \<open>binade x\<close> is the exponent
  \<open>e\<close> with \<open>2^e \<le> |x| < 2^(e+1)\<close>, searched upwards from the least normal exponent
  \<open>-1022\<close> to the greatest one \<open>1023\<close>; the doubles of that binade are the multiples of
  \<open>2^(e-52)\<close>. Below \<open>2^(-1022)\<close> this gives the spacing of the subnormal numbers. The
  overflow to infinity above the greatest double is outside the model.
\<close>

type_synonym double = rat

definition roundTiesToEven :: "rat \<Rightarrow> int" where
  "roundTiesToEven x =
     (let f = \<lfloor>x\<rfloor>; d = x - of_int f in
      if d < 1 / 2 then f
      else if 1 / 2 < d then f + 1
      else if even f then f else f + 1)"

fun findBinade :: "nat \<Rightarrow> int \<Rightarrow> rat \<Rightarrow> int" where
  "findBinade 0 e x = e"
| "findBinade (Suc k) e x = (if power_int 2 (e + 1) \<le> x then findBinade k (e + 1) x else e)"

definition binade :: "rat \<Rightarrow> int" where
  "binade x = findBinade 2045 (- 1022) \<bar>x\<bar>"

definition fl :: "rat \<Rightarrow> double" where
  "fl x = (let ulp = power_int 2 (binade x - 52) in of_int (roundTiesToEven (x / ulp)) * ulp)"

text \<open>The unit roundoff: half the distance from 1 to the next double.\<close>

definition unitRoundoff :: rat where
  "unitRoundoff = power_int 2 (- 53)"

text \<open>The operators \<open>/\<close> and \<open>*\<close> on doubles.\<close>

definition fdiv :: "double \<Rightarrow> double \<Rightarrow> double" where
  "fdiv x y = fl (x / y)"

definition fmul :: "double \<Rightarrow> double \<Rightarrow> double" where
  "fmul x y = fl (x * y)"

section \<open>services/geminiService.ts\<close>

text \<open>
  \<open>JSON.parse\<close> is a parameter \<open>parse\<close> of every function that calls it: \<open>None\<close> is the
  \<open>SyntaxError\<close> it throws. The test \<open>!text\<close> holds for \<open>undefined\<close> and for the empty
  string. The prompt of a call is built from the typed fields of the
  survey and the persona, which cannot throw; only the outcome of the call is modelled.
\<close>

subsection \<open>generatePersonas\<close>

definition generatePersonas :: "(string \<Rightarrow> json option) \<Rightarrow> api_result \<Rightarrow> error + json" where
  "generatePersonas parse r =
     (case r of
        Throws \<Rightarrow> Inl ApiFailure
      | Response None \<Rightarrow> Inr (JArr [])
      | Response (Some text) \<Rightarrow>
          if text = [] then Inr (JArr [])
          else (case parse text of None \<Rightarrow> Inl SyntaxError | Some j \<Rightarrow> Inr j))"

subsection \<open>simulateSurveyResponse\<close>

text \<open>
  The callback of \<open>parsed.answers.map\<close>. Reading \<open>a.questionId\<close> throws on \<open>null\<close>; on a
  value that is not an object it is \<open>undefined\<close>, which no question id equals.
\<close>

fun sanitizeAnswer :: "survey \<Rightarrow> json \<Rightarrow> error + json" where
  "sanitizeAnswer sv JNull = Inl TypeError"
| "sanitizeAnswer sv (JObj kvs) =
     (case find (\<lambda>quest. map_of kvs ''questionId'' = Some (JStr (q_id quest))) (questions sv) of
        None \<Rightarrow> Inr (JObj kvs)
      | Some q \<Rightarrow>
          if q_type q = RATING_SCALE then
            (case ToStringProp (map_of kvs ''answer'') of
               Inl e \<Rightarrow> Inl e
             | Inr s \<Rightarrow>
                 Inr (JObj (AList.update ''answer''
                        (JNum (case parseInt s of None \<Rightarrow> 3 | Some val \<Rightarrow> val)) kvs)))
          else Inr (JObj kvs))"
| "sanitizeAnswer sv a = Inr a"

text \<open>\<open>parsed.answers.map\<close>: only an array has a \<open>map\<close> method to call.\<close>

fun answersOf :: "json \<Rightarrow> error + json list" where
  "answersOf (JObj kvs) =
     (case map_of kvs ''answers'' of Some (JArr xs) \<Rightarrow> Inr xs | _ \<Rightarrow> Inl TypeError)"
| "answersOf j = Inl TypeError"

text \<open>The body of the \<open>try\<close> block.\<close>

definition simulateAttempt ::
  "(string \<Rightarrow> json option) \<Rightarrow> persona \<Rightarrow> survey \<Rightarrow> api_result \<Rightarrow> error + survey_response" where
  "simulateAttempt parse p sv r =
     (case r of
        Throws \<Rightarrow> Inl ApiFailure
      | Response None \<Rightarrow> Inl (Error ''No response text'')
      | Response (Some text) \<Rightarrow>
          if text = [] then Inl (Error ''No response text'')
          else (case parse text of
                  None \<Rightarrow> Inl SyntaxError
                | Some parsed \<Rightarrow>
                    (case answersOf parsed of
                       Inl e \<Rightarrow> Inl e
                     | Inr xs \<Rightarrow>
                         (case mapE (sanitizeAnswer sv) xs of
                            Inl e \<Rightarrow> Inl e
                          | Inr sanitizedAnswers \<Rightarrow>
                              Inr \<lparr>personaId = p_id p, answers = sanitizedAnswers\<rparr>))))"

text \<open>
  The function with its \<open>catch\<close>: the settled promise (\<open>Inl\<close> a rejection) and what was
  written to the console.
\<close>

definition simulateSurveyResponse ::
  "(string \<Rightarrow> json option) \<Rightarrow> persona \<Rightarrow> survey \<Rightarrow> api_result
     \<Rightarrow> (error + survey_response) \<times> log_entry list" where
  "simulateSurveyResponse parse p sv r =
     (case simulateAttempt parse p sv r of
        Inr resp \<Rightarrow> (Inr resp, [])
      | Inl e \<Rightarrow> (Inr \<lparr>personaId = p_id p, answers = []\<rparr>, [SimulationFailedFor (p_name p) e]))"

subsection \<open>analyzeResults\<close>

text \<open>
  The transcript \<open>dataContext\<close> is built before the call, from the answers as they are:
  reading \<open>a.questionId\<close> on \<open>null\<close> and converting \<open>a.answer\<close> to a string can throw,
  outside any \<open>try\<close>. Absent values render as \<open>undefined\<close>.
\<close>

definition dq :: string where
  "dq = [CHR 0x22]"

fun answerReadable :: "survey \<Rightarrow> json \<Rightarrow> error + string" where
  "answerReadable sv JNull = Inl TypeError"
| "answerReadable sv (JObj kvs) =
     (let q = find (\<lambda>qu. map_of kvs ''questionId'' = Some (JStr (q_id qu))) (questions sv);
          qtext = (case q of None \<Rightarrow> ''undefined'' | Some qu \<Rightarrow> q_text qu)
      in case ToStringProp (map_of kvs ''answer'') of
           Inl e \<Rightarrow> Inl e
         | Inr ans \<Rightarrow> Inr (''Q: '' @ dq @ qtext @ dq @ '' -> A: '' @ dq @ ans @ dq))"
| "answerReadable sv a =
     Inr (''Q: '' @ dq @ ''undefined'' @ dq @ '' -> A: '' @ dq @ ''undefined'' @ dq)"

definition participantLine :: "survey \<Rightarrow> persona list \<Rightarrow> survey_response \<Rightarrow> error + string" where
  "participantLine sv personas r =
     (let p = find (\<lambda>per. p_id per = personaId r) personas in
      case mapE (answerReadable sv) (answers r) of
        Inl e \<Rightarrow> Inl e
      | Inr as \<Rightarrow>
          Inr (''Participant: '' @ (case p of None \<Rightarrow> ''undefined'' | Some per \<Rightarrow> p_name per)
               @ '' ('' @ (case p of None \<Rightarrow> ''undefined'' | Some per \<Rightarrow> p_occupation per)
               @ '', '' @ (case p of None \<Rightarrow> ''undefined'' | Some per \<Rightarrow> showInt (p_age per))
               @ ''). Answers: ['' @ joinWith ''; '' as @ '']''))"

definition dataContext :: "survey \<Rightarrow> survey_response list \<Rightarrow> persona list \<Rightarrow> error + string" where
  "dataContext sv rs personas =
     (case mapE (participantLine sv personas) rs of
        Inl e \<Rightarrow> Inl e
      | Inr ls \<Rightarrow> Inr (joinWith ([CHR 0x0A] @ ''---'' @ [CHR 0x0A]) ls))"

definition analyzeResults ::
  "(string \<Rightarrow> json option) \<Rightarrow> survey \<Rightarrow> survey_response list \<Rightarrow> persona list
     \<Rightarrow> api_result \<Rightarrow> error + json" where
  "analyzeResults parse sv rs personas r =
     (case dataContext sv rs personas of
        Inl e \<Rightarrow> Inl e
      | Inr ctx \<Rightarrow>
          (case r of
             Throws \<Rightarrow> Inl ApiFailure
           | Response None \<Rightarrow> Inl (Error ''Analysis failed'')
           | Response (Some text) \<Rightarrow>
               if text = [] then Inl (Error ''Analysis failed'')
               else (case parse text of None \<Rightarrow> Inl SyntaxError | Some j \<Rightarrow> Inr j)))"

section \<open>App.tsx: the simulation handler\<close>

text \<open>
  The part of the component state that \<open>runSimulation\<close> reads and writes. Every state
  setter is applied at once. \<open>alerts\<close> are the \<open>alert\<close> dialogs shown, \<open>console\<close> the
  \<open>console.error\<close> lines, each in the order of the calls. \<open>timeline\<close> records, in the
  order in which they happen, that the call made for the persona at an index has settled
  and that a value is given to \<open>setSimulationProgress\<close>.
\<close>

datatype event = Attempted nat | ProgressSet double

record app_state =
  step :: Step
  isLoading :: bool
  survey :: survey
  activeParticipants :: "persona list"
  responses :: "survey_response list"
  simulationProgress :: double
  analysis :: "json option"
  alerts :: "string list"
  console :: "log_entry list"
  timeline :: "event list"

definition setSimulationProgress :: "double \<Rightarrow> app_state \<Rightarrow> app_state" where
  "setSimulationProgress v st =
     st\<lparr>simulationProgress := v, timeline := timeline st @ [ProgressSet v]\<rparr>"

text \<open>
  One turn of the \<open>for\<close> loop, for the persona at index \<open>i\<close> of \<open>n\<close>: \<open>r\<close> is the outcome
  of the generation call made for it. The local array \<open>newResponses\<close> is threaded beside
  the state. The percentage is \<open>((i + 1) / activeParticipants.length) * 100\<close>, a division
  and a multiplication of doubles; the index plus one and the length are integers below
  \<open>2^53\<close>, which are doubles.
\<close>

definition simulateOne ::
  "(string \<Rightarrow> json option) \<Rightarrow> nat \<Rightarrow> nat \<Rightarrow> persona \<Rightarrow> api_result
     \<Rightarrow> survey_response list \<times> app_state \<Rightarrow> survey_response list \<times> app_state" where
  "simulateOne parse n i p r acc =
     (case acc of (newResponses, st) \<Rightarrow>
      (case simulateSurveyResponse parse p (survey st) r of (res, logs) \<Rightarrow>
       (let st1 = st\<lparr>console := console st @ logs, timeline := timeline st @ [Attempted i]\<rparr> in
        (case res of
           Inr resp \<Rightarrow>
             (newResponses @ [resp],
              setSimulationProgress (fmul (fdiv (of_nat (i + 1)) (of_nat n)) 100)
                (st1\<lparr>responses := responses st1 @ [resp]\<rparr>))
         | Inl e \<Rightarrow>
             (newResponses,
              setSimulationProgress (fmul (fdiv (of_nat (i + 1)) (of_nat n)) 100)
                (st1\<lparr>console := console st1 @ [ErrorSimulating (p_name p)]\<rparr>))))))"

text \<open>
  The loop from index \<open>i\<close> on, over the personas not yet visited; \<open>api k\<close> is the outcome
  of the call made for the persona at index \<open>k\<close>.
\<close>

fun panelLoop ::
  "(string \<Rightarrow> json option) \<Rightarrow> (nat \<Rightarrow> api_result) \<Rightarrow> nat \<Rightarrow> nat \<Rightarrow> persona list
     \<Rightarrow> survey_response list \<times> app_state \<Rightarrow> survey_response list \<times> app_state" where
  "panelLoop parse api n i [] acc = acc"
| "panelLoop parse api n i (p # ps) acc =
     panelLoop parse api n (i + 1) ps (simulateOne parse n i p (api i) acc)"

text \<open>\<open>runSimulation\<close>; \<open>apiA\<close> is the outcome of the generation call of the analysis.\<close>

definition runSimulation ::
  "(string \<Rightarrow> json option) \<Rightarrow> (nat \<Rightarrow> api_result) \<Rightarrow> api_result \<Rightarrow> app_state \<Rightarrow> app_state" where
  "runSimulation parse api apiA st =
     (if length (activeParticipants st) = 0 then
        st\<lparr>alerts := alerts st @ [''Please add at least one persona to run the simulation.'']\<rparr>
      else
        (let st0 = setSimulationProgress 0 (st\<lparr>step := SIMULATION, responses := []\<rparr>) in
         (case panelLoop parse api (length (activeParticipants st)) 0 (activeParticipants st) ([], st0) of
            (newResponses, st1) \<Rightarrow>
              if length newResponses > 0 then
                (let st2 = st1\<lparr>isLoading := True\<rparr> in
                 (case analyzeResults parse (survey st) newResponses (activeParticipants st) apiA of
                    Inr analysisResult \<Rightarrow>
                      st2\<lparr>analysis := Some analysisResult, step := RESULTS, isLoading := False\<rparr>
                  | Inl e \<Rightarrow>
                      st2\<lparr>console := console st2 @ [AnalysisFailedLog e],
                          alerts := alerts st2 @ [''Simulation finished, but analysis failed.''],
                          isLoading := False\<rparr>))
              else st1\<lparr>step := PERSONAS, isLoading := False\<rparr>)))"

text \<open>
  What \<open>simulateSurveyResponse\<close> resolves with, and the responses the loop collects for
  the personas \<open>ps\<close> visited from index \<open>i\<close> on.
\<close>

definition outcomeResponse ::
  "(string \<Rightarrow> json option) \<Rightarrow> persona \<Rightarrow> survey \<Rightarrow> api_result \<Rightarrow> survey_response" where
  "outcomeResponse parse p sv r =
     (case simulateAttempt parse p sv r of
        Inr resp \<Rightarrow> resp
      | Inl e \<Rightarrow> \<lparr>personaId = p_id p, answers = []\<rparr>)"

definition collected ::
  "(string \<Rightarrow> json option) \<Rightarrow> (nat \<Rightarrow> api_result) \<Rightarrow> survey \<Rightarrow> nat \<Rightarrow> persona list
     \<Rightarrow> survey_response list" where
  "collected parse api sv i ps =
     map (\<lambda>(k, p). outcomeResponse parse p sv (api k)) (enumerate i ps)"

text \<open>
  The percentage set after the persona at index \<open>i\<close> of \<open>n\<close>, and the events of the loop
  for the \<open>m\<close> personas from index \<open>i\<close> on.
\<close>

definition percentDone :: "nat \<Rightarrow> nat \<Rightarrow> double" where
  "percentDone n i = fmul (fdiv (of_nat (i + 1)) (of_nat n)) 100"

definition loopEvents :: "nat \<Rightarrow> nat \<Rightarrow> nat \<Rightarrow> event list" where
  "loopEvents n i m =
     concat (map (\<lambda>k. [Attempted k, ProgressSet (percentDone n k)]) [i..<i + m])"

text \<open>
  The console lines of the loop, the state in which the loop ends, and the failures of a
  call that the \<open>try\<close> block of \<open>simulateSurveyResponse\<close> turns into exceptions before any
  answer is read: the call throws, its text is missing or empty, or its text is not JSON.
\<close>

definition collectedLogs ::
  "(string \<Rightarrow> json option) \<Rightarrow> (nat \<Rightarrow> api_result) \<Rightarrow> survey \<Rightarrow> nat \<Rightarrow> persona list
     \<Rightarrow> log_entry list" where
  "collectedLogs parse api sv i ps =
     concat (map (\<lambda>(k, p). snd (simulateSurveyResponse parse p sv (api k))) (enumerate i ps))"

definition afterLoop :: "(string \<Rightarrow> json option) \<Rightarrow> (nat \<Rightarrow> api_result) \<Rightarrow> app_state \<Rightarrow> app_state" where
  "afterLoop parse api st =
     (let st0 = setSimulationProgress 0 (st\<lparr>step := SIMULATION, responses := []\<rparr>);
          ps = activeParticipants st
      in st0\<lparr>console := console st0 @ collectedLogs parse api (survey st) 0 ps,
            responses := collected parse api (survey st) 0 ps,
            simulationProgress := last (0 # map (percentDone (length ps)) [0..<length ps]),
            timeline := timeline st0 @ loopEvents (length ps) 0 (length ps)\<rparr>)"

definition callFails :: "(string \<Rightarrow> json option) \<Rightarrow> api_result \<Rightarrow> bool" where
  "callFails parse r =
     (case r of
        Throws \<Rightarrow> True
      | Response None \<Rightarrow> True
      | Response (Some text) \<Rightarrow> text = [] \<or> parse text = None)"

section \<open>App.tsx: the frequency tables of the results view\<close>

text \<open>
  \<open>dataMap\<close> is an object literal used as a dictionary from answer text to count. The
  model keeps its own properties as a map; a count is a number, which \<open>++\<close> can turn into
  \<open>NaN\<close>. An object literal inherits from \<open>Object.prototype\<close>, so the read
  \<open>dataMap[val]\<close> also finds the properties below: a function for each name but
  \<open>__proto__\<close>, whose getter returns the prototype object.
\<close>

datatype count = Count nat | NaN

definition ObjectPrototypeKeys :: "string list" where
  "ObjectPrototypeKeys =
     [''constructor'', ''__defineGetter__'', ''__defineSetter__'', ''hasOwnProperty'',
      ''__lookupGetter__'', ''__lookupSetter__'', ''isPrototypeOf'', ''propertyIsEnumerable'',
      ''toString'', ''valueOf'', ''__proto__'', ''toLocaleString'']"

text \<open>
  \<open>dataMap[k] = v\<close> for a number \<open>v\<close>: an own property is written, except for
  \<open>__proto__\<close>, whose inherited setter ignores a value that is not an object.
\<close>

definition assign :: "string \<Rightarrow> count \<Rightarrow> (string \<rightharpoonup> count) \<Rightarrow> (string \<rightharpoonup> count)" where
  "assign k v m = (if k = ''__proto__'' then m else m(k \<mapsto> v))"

text \<open>\<open>dataMap[k] !== undefined\<close>.\<close>

definition isDefined :: "(string \<rightharpoonup> count) \<Rightarrow> string \<Rightarrow> bool" where
  "isDefined m k = (case m k of Some c \<Rightarrow> True | None \<Rightarrow> k \<in> set ObjectPrototypeKeys)"

text \<open>
  \<open>dataMap[k]++\<close>: an own count goes up by one; an inherited function or object
  converts to \<open>NaN\<close>, which is then assigned.
\<close>

definition increment :: "string \<Rightarrow> (string \<rightharpoonup> count) \<Rightarrow> (string \<rightharpoonup> count)" where
  "increment k m =
     (case m k of
        Some (Count n) \<Rightarrow> m(k \<mapsto> Count (n + 1))
      | Some NaN \<Rightarrow> m(k \<mapsto> NaN)
      | None \<Rightarrow> assign k NaN m)"

text \<open>
  \<open>r.answers.find(a => a.questionId === q.id)\<close>: the callback throws on a \<open>null\<close>
  element met before a match.
\<close>

fun findAnswer :: "string \<Rightarrow> json list \<Rightarrow> error + json option" where
  "findAnswer qid [] = Inr None"
| "findAnswer qid (JNull # as) = Inl TypeError"
| "findAnswer qid (JObj kvs # as) =
     (if map_of kvs ''questionId'' = Some (JStr qid) then Inr (Some (JObj kvs))
      else findAnswer qid as)"
| "findAnswer qid (a # as) = findAnswer qid as"

text \<open>
  \<open>ans.answer.toString()\<close>, a method call: it throws on \<open>undefined\<close> and \<open>null\<close>, and on
  an object whose own \<open>toString\<close> property is a parsed value.
\<close>

fun answerToString :: "json \<Rightarrow> error + string" where
  "answerToString (JObj kvs) =
     (case map_of kvs ''answer'' of
        None \<Rightarrow> Inl TypeError
      | Some JNull \<Rightarrow> Inl TypeError
      | Some v \<Rightarrow> ToString v)"
| "answerToString a = Inl TypeError"

text \<open>The seeding of the buckets of one question.\<close>

definition seedBuckets :: "question \<Rightarrow> (string \<rightharpoonup> count)" where
  "seedBuckets q =
     (if q_type q = RATING_SCALE then
        fold (\<lambda>n. assign (showNat n) (Count 0)) [1, 2, 3, 4, 5] Map.empty
      else if q_type q = MULTIPLE_CHOICE \<and> q_options q \<noteq> None then
        fold (\<lambda>opt. assign opt (Count 0)) (case q_options q of None \<Rightarrow> [] | Some os \<Rightarrow> os) Map.empty
      else Map.empty)"

text \<open>The body of \<open>responses.forEach\<close> for one response.\<close>

definition countResponse ::
  "question \<Rightarrow> survey_response \<Rightarrow> (string \<rightharpoonup> count) \<Rightarrow> error + (string \<rightharpoonup> count)" where
  "countResponse q r m =
     (case findAnswer (q_id q) (answers r) of
        Inl e \<Rightarrow> Inl e
      | Inr None \<Rightarrow> Inr m
      | Inr (Some ans) \<Rightarrow>
          (case answerToString ans of
             Inl e \<Rightarrow> Inl e
           | Inr val \<Rightarrow>
               Inr (if isDefined m val then increment val m else assign val (Count 1) m)))"

fun countResponses ::
  "question \<Rightarrow> survey_response list \<Rightarrow> (string \<rightharpoonup> count) \<Rightarrow> error + (string \<rightharpoonup> count)" where
  "countResponses q [] m = Inr m"
| "countResponses q (r # rs) m =
     (case countResponse q r m of Inl e \<Rightarrow> Inl e | Inr m' \<Rightarrow> countResponses q rs m')"

text \<open>The \<open>dataMap\<close> of one chart, and the charts of the results view.\<close>

definition chartDataMap :: "question \<Rightarrow> survey_response list \<Rightarrow> error + (string \<rightharpoonup> count)" where
  "chartDataMap q rs = countResponses q rs (seedBuckets q)"

definition quantitativeCharts ::
  "survey \<Rightarrow> survey_response list \<Rightarrow> error + (question \<times> (string \<rightharpoonup> count)) list" where
  "quantitativeCharts sv rs =
     mapE (\<lambda>q. case chartDataMap q rs of Inl e \<Rightarrow> Inl e | Inr m \<Rightarrow> Inr (q, m))
       (filter (\<lambda>q. q_type q \<noteq> OPEN_ENDED) (questions sv))"

section \<open>App.tsx: survey templates\<close>

text \<open>
  The template handlers copy the survey with \<open>JSON.parse(JSON.stringify(survey))\<close>, and
  what matters is which objects the copies share. The objects of a survey therefore live
  in an explicit store: a list of cells, an address being an index. A \<open>Survey\<close> object
  refers to its array of questions, the array to its \<open>Question\<close> objects, and a question,
  when it has options, to its array of option strings. A question without options has no
  such reference: an \<open>options\<close> property that holds \<open>undefined\<close>, which
  \<open>JSON.stringify\<close> leaves out, and one that is absent read alike.
\<close>

type_synonym addr = nat

datatype cell =
    SurveyObj string string addr
  | QuestionArr "addr list"
  | QuestionObj string string QuestionType "addr option"
  | StringArr "string list"

type_synonym store = "cell list"

definition cellAt :: "store \<Rightarrow> addr \<Rightarrow> cell option" where
  "cellAt h a = (if a < length h then Some (h ! a) else None)"

fun mapO :: "('a \<Rightarrow> 'b option) \<Rightarrow> 'a list \<Rightarrow> 'b list option" where
  "mapO f [] = Some []"
| "mapO f (x # xs) =
     (case f x of
        None \<Rightarrow> None
      | Some y \<Rightarrow> (case mapO f xs of None \<Rightarrow> None | Some ys \<Rightarrow> Some (y # ys)))"

text \<open>
  The value that \<open>JSON.stringify\<close> writes for the survey at an address: the fields, read
  through the references. \<open>None\<close> means that the store holds no survey there, which the
  types of the component exclude.
\<close>

definition readQuestion :: "store \<Rightarrow> addr \<Rightarrow> question option" where
  "readQuestion h a =
     (case cellAt h a of
        Some (QuestionObj i t ty None) \<Rightarrow>
          Some \<lparr>q_id = i, q_text = t, q_type = ty, q_options = None\<rparr>
      | Some (QuestionObj i t ty (Some oa)) \<Rightarrow>
          (case cellAt h oa of
             Some (StringArr os) \<Rightarrow> Some \<lparr>q_id = i, q_text = t, q_type = ty, q_options = Some os\<rparr>
           | _ \<Rightarrow> None)
      | _ \<Rightarrow> None)"

definition readSurvey :: "store \<Rightarrow> addr \<Rightarrow> survey option" where
  "readSurvey h a =
     (case cellAt h a of
        Some (SurveyObj t d qa) \<Rightarrow>
          (case cellAt h qa of
             Some (QuestionArr qas) \<Rightarrow>
               (case mapO (readQuestion h) qas of
                  None \<Rightarrow> None
                | Some qs \<Rightarrow> Some \<lparr>title = t, description = d, questions = qs\<rparr>)
           | _ \<Rightarrow> None)
      | _ \<Rightarrow> None)"

text \<open>The creation of the objects of a survey: every one of them is new.\<close>

definition alloc :: "cell \<Rightarrow> store \<Rightarrow> addr \<times> store" where
  "alloc c h = (length h, h @ [c])"

definition allocQuestion :: "question \<Rightarrow> store \<Rightarrow> addr \<times> store" where
  "allocQuestion q h =
     (case q_options q of
        None \<Rightarrow> alloc (QuestionObj (q_id q) (q_text q) (q_type q) None) h
      | Some os \<Rightarrow>
          (case alloc (StringArr os) h of
             (oa, h1) \<Rightarrow> alloc (QuestionObj (q_id q) (q_text q) (q_type q) (Some oa)) h1))"

fun allocQuestions :: "question list \<Rightarrow> store \<Rightarrow> addr list \<times> store" where
  "allocQuestions [] h = ([], h)"
| "allocQuestions (q # qs) h =
     (case allocQuestion q h of
        (a, h1) \<Rightarrow> (case allocQuestions qs h1 of (as, h2) \<Rightarrow> (a # as, h2)))"

definition allocSurvey :: "survey \<Rightarrow> store \<Rightarrow> addr \<times> store" where
  "allocSurvey sv h =
     (case allocQuestions (questions sv) h of
        (qas, h1) \<Rightarrow>
          (case alloc (QuestionArr qas) h1 of
             (qa, h2) \<Rightarrow> alloc (SurveyObj (title sv) (description sv) qa) h2))"

text \<open>
  The value that \<open>JSON.stringify\<close> writes for a survey: one object for the survey and
  one for each question, an array for the questions and for the options. A property that
  holds \<open>undefined\<close> is left out. The members of the enum \<open>QuestionType\<close> are strings.
\<close>

definition typeName :: "QuestionType \<Rightarrow> string" where
  "typeName ty =
     (case ty of
        OPEN_ENDED \<Rightarrow> ''OPEN_ENDED''
      | MULTIPLE_CHOICE \<Rightarrow> ''MULTIPLE_CHOICE''
      | RATING_SCALE \<Rightarrow> ''RATING_SCALE'')"

definition questionJson :: "question \<Rightarrow> json" where
  "questionJson q =
     JObj ([(''id'', JStr (q_id q)), (''text'', JStr (q_text q)), (''type'', JStr (typeName (q_type q)))]
           @ (case q_options q of None \<Rightarrow> [] | Some os \<Rightarrow> [(''options'', JArr (map JStr os))]))"

definition surveyJson :: "survey \<Rightarrow> json" where
  "surveyJson sv =
     JObj [(''title'', JStr (title sv)), (''description'', JStr (description sv)),
           (''questions'', JArr (map questionJson (questions sv)))]"

definition stringifySurvey :: "store \<Rightarrow> addr \<Rightarrow> json option" where
  "stringifySurvey h a = (case readSurvey h a of None \<Rightarrow> None | Some sv \<Rightarrow> Some (surveyJson sv))"

text \<open>
  The survey that the fields of a parsed value make up, when the value has the shape of a
  survey: \<open>None\<close> otherwise. An \<open>options\<close> property that is absent reads as \<open>undefined\<close>.
\<close>

definition typeOfName :: "string \<Rightarrow> QuestionType option" where
  "typeOfName n =
     (if n = ''OPEN_ENDED'' then Some OPEN_ENDED
      else if n = ''MULTIPLE_CHOICE'' then Some MULTIPLE_CHOICE
      else if n = ''RATING_SCALE'' then Some RATING_SCALE
      else None)"

fun stringOfJson :: "json \<Rightarrow> string option" where
  "stringOfJson (JStr s) = Some s"
| "stringOfJson j = None"

fun optionsOfJson :: "json option \<Rightarrow> string list option option" where
  "optionsOfJson None = Some None"
| "optionsOfJson (Some (JArr xs)) =
     (case mapO stringOfJson xs of None \<Rightarrow> None | Some os \<Rightarrow> Some (Some os))"
| "optionsOfJson (Some j) = None"

fun questionOfJson :: "json \<Rightarrow> question option" where
  "questionOfJson (JObj kvs) =
     (case (map_of kvs ''id'', map_of kvs ''text'', map_of kvs ''type'') of
        (Some (JStr i), Some (JStr t), Some (JStr n)) \<Rightarrow>
          (case (typeOfName n, optionsOfJson (map_of kvs ''options'')) of
             (Some ty, Some os) \<Rightarrow> Some \<lparr>q_id = i, q_text = t, q_type = ty, q_options = os\<rparr>
           | _ \<Rightarrow> None)
      | _ \<Rightarrow> None)"
| "questionOfJson j = None"

fun surveyOfJson :: "json \<Rightarrow> survey option" where
  "surveyOfJson (JObj kvs) =
     (case (map_of kvs ''title'', map_of kvs ''description'', map_of kvs ''questions'') of
        (Some (JStr t), Some (JStr d), Some (JArr qs)) \<Rightarrow>
          (case mapO questionOfJson qs of
             None \<Rightarrow> None
           | Some qs' \<Rightarrow> Some \<lparr>title = t, description = d, questions = qs'\<rparr>)
      | _ \<Rightarrow> None)"
| "surveyOfJson j = None"

text \<open>\<open>JSON.parse\<close> on the text of such a value: new objects that hold its fields.\<close>

definition parseSurvey :: "json \<Rightarrow> store \<Rightarrow> (addr \<times> store) option" where
  "parseSurvey j h = (case surveyOfJson j of None \<Rightarrow> None | Some sv \<Rightarrow> Some (allocSurvey sv h))"

text \<open>
  \<open>JSON.parse(JSON.stringify(x))\<close> for the survey at address \<open>a\<close>: the text written is
  the text that is read.
\<close>

definition jsonCopy :: "store \<Rightarrow> addr \<Rightarrow> (addr \<times> store) option" where
  "jsonCopy h a = (case stringifySurvey h a of None \<Rightarrow> None | Some j \<Rightarrow> parseSurvey j h)"

text \<open>The addresses of the objects that make up a question and a survey.\<close>

definition questionCells :: "store \<Rightarrow> addr \<Rightarrow> addr list" where
  "questionCells h a =
     a # (case cellAt h a of Some (QuestionObj i t ty (Some oa)) \<Rightarrow> [oa] | _ \<Rightarrow> [])"

definition surveyCells :: "store \<Rightarrow> addr \<Rightarrow> addr list" where
  "surveyCells h a =
     a # (case cellAt h a of
            Some (SurveyObj t d qa) \<Rightarrow>
              qa # (case cellAt h qa of
                      Some (QuestionArr qas) \<Rightarrow> concat (map (questionCells h) qas)
                    | _ \<Rightarrow> [])
          | _ \<Rightarrow> [])"

text \<open>
  A saved template, and the part of the component state that the template handlers use.
  \<open>surveyRef\<close> is the \<open>survey\<close> state variable, \<open>storedTemplates\<close> the item
  \<open>personaPulse_templates\<close> of the local storage (the serialised list, as values),
  \<open>dialogs\<close> the \<open>alert\<close> dialogs shown.
\<close>

record saved_template =
  t_id :: string
  t_name :: string
  t_survey :: addr
  t_createdAt :: nat

record template_state =
  objects :: store
  surveyRef :: addr
  templateNameInput :: string
  savedTemplates :: "saved_template list"
  storedTemplates :: "(string \<times> string \<times> json option \<times> nat) list"
  isSaveModalOpen :: bool
  isLoadModalOpen :: bool
  dialogs :: "string list"

definition serialiseTemplate ::
  "store \<Rightarrow> saved_template \<Rightarrow> string \<times> string \<times> json option \<times> nat" where
  "serialiseTemplate h t = (t_id t, t_name t, stringifySurvey h (t_survey t), t_createdAt t)"

text \<open>
  \<open>saveTemplate\<close>; \<open>newId\<close> is what \<open>generateId()\<close> returns and \<open>now\<close> what
  \<open>Date.now()\<close> returns. The test \<open>!templateNameInput.trim()\<close> holds when the name has
  white space only. The write to the local storage is taken to succeed.
\<close>

definition saveTemplate :: "string \<Rightarrow> nat \<Rightarrow> template_state \<Rightarrow> template_state option" where
  "saveTemplate newId now st =
     (if list_all isWhiteSpace (templateNameInput st) then
        Some (st\<lparr>dialogs := dialogs st @ [''Please enter a name for the template.'']\<rparr>)
      else
        (case jsonCopy (objects st) (surveyRef st) of
           None \<Rightarrow> None
         | Some (a, h) \<Rightarrow>
             (let newTemplate = \<lparr>t_id = newId, t_name = templateNameInput st,
                                 t_survey = a, t_createdAt = now\<rparr>;
                  newList = savedTemplates st @ [newTemplate]
              in Some (st\<lparr>objects := h,
                          savedTemplates := newList,
                          storedTemplates := map (serialiseTemplate h) newList,
                          isSaveModalOpen := False\<rparr>))))"

text \<open>\<open>loadTemplate\<close>; \<open>confirmed\<close> is the answer to the \<open>window.confirm\<close> dialog.\<close>

definition loadTemplate :: "bool \<Rightarrow> saved_template \<Rightarrow> template_state \<Rightarrow> template_state option" where
  "loadTemplate confirmed template st =
     (if confirmed then
        (case jsonCopy (objects st) (t_survey template) of
           None \<Rightarrow> None
         | Some (surveyCopy, h) \<Rightarrow>
             Some (st\<lparr>objects := h, surveyRef := surveyCopy, isLoadModalOpen := False\<rparr>))
      else Some st)"

text \<open>
  \<open>resetSurveyForm\<close>, which replaces the survey by an object literal once the operator
  confirms.
\<close>

definition resetSurveyForm :: "bool \<Rightarrow> template_state \<Rightarrow> template_state" where
  "resetSurveyForm confirmed st =
     (if confirmed then
        (case allocSurvey \<lparr>title = ''Untitled Survey'', description = [], questions = []\<rparr>
                (objects st) of
           (a, h) \<Rightarrow> st\<lparr>objects := h, surveyRef := a\<rparr>)
      else st)"

section \<open>Concrete inputs\<close>

text \<open>A survey with one question of each type, two personas, and a state ready to run.\<close>

definition demoSurvey :: survey where
  "demoSurvey =
     \<lparr>title = ''Demo survey'', description = ''A demo'',
      questions =
        [\<lparr>q_id = ''q1'', q_text = ''How useful is it?'', q_type = RATING_SCALE, q_options = None\<rparr>,
         \<lparr>q_id = ''q2'', q_text = ''What is missing?'', q_type = OPEN_ENDED, q_options = None\<rparr>,
         \<lparr>q_id = ''q3'', q_text = ''Would you buy it?'', q_type = MULTIPLE_CHOICE,
          q_options = Some [''Yes'', ''No'']\<rparr>]\<rparr>"

definition personaA :: persona where
  "personaA =
     \<lparr>p_id = ''pA'', p_name = ''Ann'', p_age = 34, p_occupation = ''Designer'',
      p_traits = ''curious'', p_painPoints = ''too many tools''\<rparr>"

definition personaB :: persona where
  "personaB =
     \<lparr>p_id = ''pB'', p_name = ''Bob'', p_age = 41, p_occupation = ''Developer'',
      p_traits = ''sceptical'', p_painPoints = ''context switching''\<rparr>"

definition demoState :: app_state where
  "demoState =
     \<lparr>step = PERSONAS, isLoading = False, survey = demoSurvey,
      activeParticipants = [personaA, personaB], responses = [], simulationProgress = 0,
      analysis = None, alerts = [], console = [], timeline = []\<rparr>"

text \<open>
  Response texts of the service: the answers \<open>{"answers":[{"questionId":q,"answer":a}]}\<close>
  and an analysis. \<open>demoParse\<close> is \<open>JSON.parse\<close> on these texts; every other text used
  below is not JSON.
\<close>

definition quoted :: "string \<Rightarrow> string" where
  "quoted s = dq @ s @ dq"

definition answersText :: "string \<Rightarrow> string \<Rightarrow> string" where
  "answersText qid ans =
     ''{'' @ quoted ''answers'' @ '':[{'' @ quoted ''questionId'' @ '':'' @ quoted qid
       @ '','' @ quoted ''answer'' @ '':'' @ quoted ans @ ''}]}''"

definition answersValue :: "string \<Rightarrow> string \<Rightarrow> json" where
  "answersValue qid ans =
     JObj [(''answers'', JArr [JObj [(''questionId'', JStr qid), (''answer'', JStr ans)]])]"

definition analysisText :: string where
  "analysisText =
     ''{'' @ quoted ''summary'' @ '':'' @ quoted ''fine'' @ '','' @ quoted ''keyInsights'' @ '':[],''
       @ quoted ''sentiment'' @ '':'' @ quoted ''Neutral'' @ '','' @ quoted ''featureSuggestions''
       @ '':[]}''"

definition analysisValue :: json where
  "analysisValue =
     JObj [(''summary'', JStr ''fine''), (''keyInsights'', JArr []),
           (''sentiment'', JStr ''Neutral''), (''featureSuggestions'', JArr [])]"

definition demoParse :: "string \<Rightarrow> json option" where
  "demoParse text =
     (if text = answersText ''q1'' ''5'' then Some (answersValue ''q1'' ''5'')
      else if text = answersText ''q1'' ''7'' then Some (answersValue ''q1'' ''7'')
      else if text = analysisText then Some analysisValue
      else None)"

text \<open>Outcomes of the calls made for the panel: all throw; only the first one answers.\<close>

definition allThrow :: "nat \<Rightarrow> api_result" where
  "allThrow i = Throws"

definition firstAnswers :: "nat \<Rightarrow> api_result" where
  "firstAnswers i = (if i = 0 then Response (Some (answersText ''q1'' ''5'')) else Throws)"

text \<open>A response holding one answer, as text.\<close>

definition textResponse :: "string \<Rightarrow> string \<Rightarrow> string \<Rightarrow> survey_response" where
  "textResponse pid qid ans =
     \<lparr>personaId = pid, answers = [JObj [(''questionId'', JStr qid), (''answer'', JStr ans)]]\<rparr>"

definition ratingQuestion :: question where
  "ratingQuestion =
     \<lparr>q_id = ''q1'', q_text = ''How useful is it?'', q_type = RATING_SCALE, q_options = None\<rparr>"

definition choiceQuestion :: question where
  "choiceQuestion =
     \<lparr>q_id = ''q3'', q_text = ''Would you buy it?'', q_type = MULTIPLE_CHOICE,
      q_options = Some [''Yes'', ''No'']\<rparr>"

text \<open>A template state whose store holds the demo survey.\<close>

definition demoTemplateState :: template_state where
  "demoTemplateState =
     \<lparr>objects = snd (allocSurvey demoSurvey []), surveyRef = fst (allocSurvey demoSurvey []),
      templateNameInput = ''My template'', savedTemplates = [], storedTemplates = [],
      isSaveModalOpen = True, isLoadModalOpen = False, dialogs = []\<rparr>"

section \<open>Double-precision rounding\<close>

text \<open>
  In the range of the normal numbers the binade found is the right one, a double is left
  as it is, and the rounding changes a value by at most the unit roundoff times the value.
\<close>

lemma roundTiesToEven_error: "\<bar>of_int (roundTiesToEven x) - x\<bar> \<le> 1 / 2"
proof -
  have "of_int \<lfloor>x\<rfloor> \<le> x" "x < of_int \<lfloor>x\<rfloor> + 1"
    by linarith+
  then show ?thesis
    by (auto simp: roundTiesToEven_def Let_def)
qed

lemma roundTiesToEven_of_int: "roundTiesToEven (of_int k) = k"
  by (simp add: roundTiesToEven_def)

lemma findBinade_lower:
  "power_int 2 e \<le> x \<Longrightarrow> power_int 2 (findBinade k e x) \<le> x"
  by (induction k arbitrary: e) auto

lemma findBinade_upper:
  "x < power_int 2 (e + int k + 1) \<Longrightarrow> x < power_int 2 (findBinade k e x + 1)"
proof (induction k arbitrary: e)
  case 0
  then show ?case by simp
next
  case (Suc k)
  show ?case
  proof (cases "power_int 2 (e + 1) \<le> x")
    case True
    have "x < power_int 2 ((e + 1) + int k + 1)"
      using Suc.prems by (simp add: algebra_simps)
    then show ?thesis
      using Suc.IH [of "e + 1"] True by simp
  next
    case False
    then show ?thesis by simp
  qed
qed

lemma binade_bounds:
  assumes "power_int 2 (- 1022) \<le> \<bar>x\<bar>" and "\<bar>x\<bar> < power_int 2 1024"
  shows "power_int 2 (binade x) \<le> \<bar>x\<bar>" and "\<bar>x\<bar> < power_int 2 (binade x + 1)"
proof -
  show "power_int 2 (binade x) \<le> \<bar>x\<bar>"
    unfolding binade_def using assms(1) by (rule findBinade_lower)
  have "\<bar>x\<bar> < power_int 2 (- 1022 + int 2045 + 1)"
    using assms(2) by simp
  then show "\<bar>x\<bar> < power_int 2 (binade x + 1)"
    unfolding binade_def by (rule findBinade_upper)
qed

lemma binade_unique:
  assumes "power_int 2 e \<le> \<bar>x\<bar>" and "\<bar>x\<bar> < power_int 2 (e + 1)"
    and "- 1022 \<le> e" and "e \<le> 1023"
  shows "binade x = e"
proof -
  have lo: "power_int (2::rat) (- 1022) \<le> power_int 2 e"
    using assms(3) by (intro power_int_increasing) simp_all
  have hi: "power_int (2::rat) (e + 1) \<le> power_int 2 1024"
    using assms(4) by (intro power_int_increasing) simp_all
  have b: "power_int 2 (binade x) \<le> \<bar>x\<bar>" "\<bar>x\<bar> < power_int 2 (binade x + 1)"
    using binade_bounds [of x] lo hi assms(1,2) by simp_all
  have "\<not> binade x < e"
  proof
    assume "binade x < e"
    then have "power_int (2::rat) (binade x + 1) \<le> power_int 2 e"
      by (intro power_int_increasing) simp_all
    then show False using b(2) assms(1) by simp
  qed
  moreover have "\<not> e < binade x"
  proof
    assume "e < binade x"
    then have "power_int (2::rat) (e + 1) \<le> power_int 2 (binade x)"
      by (intro power_int_increasing) simp_all
    then show False using b(1) assms(2) by simp
  qed
  ultimately show ?thesis by simp
qed

lemma fl_error:
  assumes "power_int 2 (- 1022) \<le> x" and "x < power_int 2 1024"
  shows "\<bar>fl x - x\<bar> \<le> x * unitRoundoff"
proof -
  have xpos: "0 < x"
    using assms(1) zero_less_power_int [of "2::rat" "- 1022"] by linarith
  then have ax: "\<bar>x\<bar> = x" by simp
  let ?e = "binade x"
  let ?u = "power_int (2::rat) (?e - 52)"
  have upos: "0 < ?u" by simp
  have lo: "power_int 2 ?e \<le> x"
    using binade_bounds(1) [of x] assms ax by simp
  have "fl x - x = (of_int (roundTiesToEven (x / ?u)) - x / ?u) * ?u"
    using upos by (simp add: fl_def Let_def algebra_simps)
  then have "\<bar>fl x - x\<bar> = \<bar>of_int (roundTiesToEven (x / ?u)) - x / ?u\<bar> * ?u"
    using upos by (simp add: abs_mult)
  also have "\<dots> \<le> (1 / 2) * ?u"
    using roundTiesToEven_error [of "x / ?u"] upos by (intro mult_right_mono) simp_all
  also have "(1 / 2) * ?u = power_int 2 ?e * power_int 2 (- 53)"
  proof -
    have "?u = power_int 2 ?e * power_int 2 (- 52)"
      using power_int_add [of "2::rat" ?e "- 52"] by simp
    moreover have "(1 / 2) * power_int (2::rat) (- 52) = power_int 2 (- 53)"
      by (simp add: power_int_def power_one_over)
    ultimately show ?thesis by simp
  qed
  also have "\<dots> \<le> x * power_int 2 (- 53)"
    using lo by (intro mult_right_mono) simp_all
  finally show ?thesis
    by (simp only: unitRoundoff_def)
qed

lemma fl_exact:
  assumes "power_int 2 e \<le> \<bar>x\<bar>" and "\<bar>x\<bar> < power_int 2 (e + 1)"
    and "- 1022 \<le> e" and "e \<le> 1023"
    and "x = of_int k * power_int 2 (e - 52)"
  shows "fl x = x"
proof -
  have b: "binade x = e"
    using assms(1-4) by (rule binade_unique)
  have q: "x / power_int 2 (e - 52) = of_int k"
    using assms(5) by simp
  have "fl x = of_int (roundTiesToEven (x / power_int 2 (e - 52))) * power_int 2 (e - 52)"
    by (simp add: fl_def b Let_def)
  also have "\<dots> = of_int k * power_int 2 (e - 52)"
    by (simp only: q roundTiesToEven_of_int)
  finally show ?thesis
    using assms(5) by simp
qed

lemma fl_1: "fl 1 = 1"
  by (rule fl_exact [of 0 _ "2 ^ 52"]) (simp_all add: power_int_def power_one_over)

lemma fl_100: "fl 100 = 100"
  by (rule fl_exact [of 6 _ "100 * 2 ^ 46"]) (simp_all add: power_int_def power_one_over)

lemma fl_half: "fl (1 / 2) = 1 / 2"
  by (rule fl_exact [of "- 1" _ "2 ^ 52"]) (simp_all add: power_int_def power_one_over)

lemma fl_50: "fl 50 = 50"
  by (rule fl_exact [of 5 _ "50 * 2 ^ 47"]) (simp_all add: power_int_def power_one_over)

text \<open>
  The percentage after the persona at index \<open>i\<close> of \<open>n \<le> 2^32\<close> lies within two roundings
  of \<open>100 * (i + 1) / n\<close>, and these intervals do not overlap.
\<close>

lemma unitRoundoff_bounds:
  "0 < unitRoundoff" "unitRoundoff \<le> 1 / 2" "4 * unitRoundoff * 2 ^ 32 < (1 - unitRoundoff)\<^sup>2"
  by (simp_all add: unitRoundoff_def power_int_def power_one_over power2_eq_square)

lemma fl_between:
  assumes "power_int 2 (- 1022) \<le> x" and "x < power_int 2 1024"
  shows "x * (1 - unitRoundoff) \<le> fl x" and "fl x \<le> x * (1 + unitRoundoff)"
proof -
  have e: "\<bar>fl x - x\<bar> \<le> x * unitRoundoff"
    using assms by (rule fl_error)
  have l: "x * (1 - unitRoundoff) = x - x * unitRoundoff"
    and r: "x * (1 + unitRoundoff) = x + x * unitRoundoff"
    by (simp_all add: algebra_simps)
  show "x * (1 - unitRoundoff) \<le> fl x"
    unfolding l using e by linarith
  show "fl x \<le> x * (1 + unitRoundoff)"
    unfolding r using e by linarith
qed

lemma normal_range:
  fixes x :: rat
  assumes "1 / 2 ^ 33 \<le> x" and "x \<le> 256"
  shows "power_int 2 (- 1022) \<le> x" and "x < power_int 2 1024"
proof -
  have "power_int (2::rat) (- 1022) \<le> power_int 2 (- 33)"
    by (intro power_int_increasing) simp_all
  also have "\<dots> = 1 / 2 ^ 33"
    by (simp add: power_int_def power_one_over)
  finally show "power_int 2 (- 1022) \<le> x"
    using assms(1) by linarith
  have "power_int (2::rat) 8 < power_int 2 1024"
    by (intro power_int_strict_increasing) simp_all
  then have "(256::rat) < power_int 2 1024"
    by (simp add: power_int_def)
  then show "x < power_int 2 1024"
    using assms(2) by linarith
qed

lemma of_nat_le_two32: "n \<le> 2 ^ 32 \<Longrightarrow> (of_nat n :: rat) \<le> 2 ^ 32"
proof -
  assume "n \<le> 2 ^ 32"
  then have "(of_nat n :: rat) \<le> of_nat (2 ^ 32)"
    by (simp only: of_nat_le_iff)
  then show ?thesis by simp
qed

lemma fraction_range:
  assumes "i < n" and "n \<le> 2 ^ 32"
  shows "1 / 2 ^ 32 \<le> (of_nat (i + 1) / of_nat n :: rat)"
    and "(of_nat (i + 1) / of_nat n :: rat) \<le> 1"
proof -
  have n: "0 < (of_nat n :: rat)" using assms(1) by simp
  have n32: "(of_nat n :: rat) \<le> 2 ^ 32"
    using assms(2) by (rule of_nat_le_two32)
  have "1 / 2 ^ 32 \<le> 1 / (of_nat n :: rat)"
    using n n32 by (intro divide_left_mono) simp_all
  also have "\<dots> \<le> of_nat (i + 1) / of_nat n"
    using n by (intro divide_right_mono) simp_all
  finally show "1 / 2 ^ 32 \<le> (of_nat (i + 1) / of_nat n :: rat)" .
  show "(of_nat (i + 1) / of_nat n :: rat) \<le> 1"
    using assms(1) n by simp
qed

lemma percentDone_between:
  assumes "i < n" and "n \<le> 2 ^ 32"
  shows "100 * (of_nat (i + 1) / of_nat n) * (1 - unitRoundoff)\<^sup>2 \<le> percentDone n i"
    and "percentDone n i \<le> 100 * (of_nat (i + 1) / of_nat n) * (1 + unitRoundoff)\<^sup>2"
proof -
  define q :: rat where "q = of_nat (i + 1) / of_nat n"
  define u where "u = unitRoundoff"
  have u: "0 < u" "u \<le> 1 / 2"
    using unitRoundoff_bounds by (simp_all add: u_def)
  have q: "1 / 2 ^ 32 \<le> q" "q \<le> 1"
    using fraction_range [OF assms] by (simp_all add: q_def)
  have q0: "0 \<le> q" using q(1) by simp
  have qr: "power_int 2 (- 1022) \<le> q" "q < power_int 2 1024"
    using q by (intro normal_range; simp)+
  have a: "q * (1 - u) \<le> fl q" "fl q \<le> q * (1 + u)"
    using fl_between [OF qr] by (simp_all add: u_def)
  have h: "q * (1 / 2) \<le> q * (1 - u)"
    using u q0 by (intro mult_left_mono) simp_all
  have "1 / 2 ^ 33 \<le> q * (1 / 2)"
    using q(1) by simp
  then have alo: "1 / 2 ^ 33 \<le> fl q"
    using a(1) h by linarith
  have "q * (1 + u) \<le> 1 * 2"
    using u q q0 by (intro mult_mono) simp_all
  then have ahi: "fl q \<le> 2"
    using a(2) by simp
  define p where "p = fl q * 100"
  have pr: "power_int 2 (- 1022) \<le> p" "p < power_int 2 1024"
    using alo ahi by (intro normal_range; simp add: p_def)+
  have b: "p * (1 - u) \<le> fl p" "fl p \<le> p * (1 + u)"
    using fl_between [OF pr] by (simp_all add: u_def)
  have pd: "percentDone n i = fl p"
    by (simp add: percentDone_def fmul_def fdiv_def p_def q_def)
  have "100 * q * (1 - u)\<^sup>2 = (q * (1 - u)) * 100 * (1 - u)"
    by (simp add: power2_eq_square)
  also have "\<dots> \<le> p * (1 - u)"
    unfolding p_def using a(1) u by (intro mult_right_mono) simp_all
  also have "\<dots> \<le> fl p" by (rule b(1))
  finally show "100 * (of_nat (i + 1) / of_nat n) * (1 - unitRoundoff)\<^sup>2 \<le> percentDone n i"
    by (simp only: pd q_def u_def)
  have "fl p \<le> p * (1 + u)" by (rule b(2))
  also have "\<dots> \<le> (q * (1 + u)) * 100 * (1 + u)"
    unfolding p_def using a(2) u by (intro mult_right_mono) simp_all
  also have "\<dots> = 100 * q * (1 + u)\<^sup>2"
    by (simp add: power2_eq_square)
  finally show "percentDone n i \<le> 100 * (of_nat (i + 1) / of_nat n) * (1 + unitRoundoff)\<^sup>2"
    by (simp only: pd q_def u_def)
qed

lemma percentDone_positive:
  assumes "i < n" and "n \<le> 2 ^ 32"
  shows "0 < percentDone n i"
proof -
  have "0 < (of_nat (i + 1) / of_nat n :: rat)"
    using assms(1) by simp
  moreover have "0 < (1 - unitRoundoff)\<^sup>2"
    using unitRoundoff_bounds(2) by simp
  ultimately have "0 < 100 * (of_nat (i + 1) / of_nat n :: rat) * (1 - unitRoundoff)\<^sup>2"
    by (intro mult_pos_pos) simp_all
  then show ?thesis
    using percentDone_between(1) [OF assms] by linarith
qed

lemma percentDone_strict:
  assumes "i < j" and "j < n" and "n \<le> 2 ^ 32"
  shows "percentDone n i < percentDone n j"
proof -
  define u where "u = unitRoundoff"
  define x :: rat where "x = of_nat (i + 1)"
  define y :: rat where "y = of_nat (j + 1)"
  have n: "0 < (of_nat n :: rat)" using assms by simp
  have i: "i < n" using assms by simp
  have "i + 1 \<le> n" using i by simp
  then have "i + 1 \<le> 2 ^ 32" using assms(3) by simp
  then have x32: "x \<le> 2 ^ 32"
    unfolding x_def by (rule of_nat_le_two32)
  have "i + 1 + 1 \<le> j + 1" using assms(1) by simp
  then have "(of_nat (i + 1 + 1) :: rat) \<le> of_nat (j + 1)"
    by (simp only: of_nat_le_iff)
  then have xy: "x + 1 \<le> y"
    by (simp add: x_def y_def)
  have u: "0 < u" "4 * u * 2 ^ 32 < (1 - u)\<^sup>2"
    using unitRoundoff_bounds by (simp_all add: u_def)
  have sq: "0 \<le> (1 - u)\<^sup>2" by simp
  have e1: "x * (1 + u)\<^sup>2 = x * (1 - u)\<^sup>2 + 4 * u * x"
    by (simp add: power2_eq_square algebra_simps)
  have e2: "4 * u * x \<le> 4 * u * 2 ^ 32"
    using u(1) x32 by (intro mult_left_mono) simp_all
  have e3: "(x + 1) * (1 - u)\<^sup>2 = x * (1 - u)\<^sup>2 + (1 - u)\<^sup>2"
    by (simp add: algebra_simps)
  have e4: "(x + 1) * (1 - u)\<^sup>2 \<le> y * (1 - u)\<^sup>2"
    using xy sq by (rule mult_right_mono)
  have k: "x * (1 + u)\<^sup>2 < y * (1 - u)\<^sup>2"
    using e1 e2 e3 e4 u(2) by linarith
  have "percentDone n i \<le> 100 * (of_nat (i + 1) / of_nat n) * (1 + unitRoundoff)\<^sup>2"
    using percentDone_between(2) [OF i assms(3)] .
  also have "\<dots> = (100 / of_nat n) * (x * (1 + u)\<^sup>2)"
    by (simp add: x_def u_def)
  also have "\<dots> < (100 / of_nat n) * (y * (1 - u)\<^sup>2)"
    using k n by (intro mult_strict_left_mono) simp_all
  also have "\<dots> = 100 * (of_nat (j + 1) / of_nat n) * (1 - unitRoundoff)\<^sup>2"
    by (simp add: y_def u_def)
  also have "\<dots> \<le> percentDone n j"
    using percentDone_between(1) [OF assms(2,3)] .
  finally show ?thesis .
qed

lemma percentDone_last: "0 < n \<Longrightarrow> percentDone n (n - Suc 0) = 100"
  by (simp add: percentDone_def fdiv_def fmul_def fl_1 fl_100)

text \<open>
  With three personas the first update is the double that prints as
  \<open>33.33333333333333\<close>, which is \<open>4691249611844266 / 2^47\<close>, and not the double nearest
  to \<open>100 / 3\<close>.
\<close>

lemma fl_in_binade:
  assumes "power_int 2 e \<le> \<bar>x\<bar>" and "\<bar>x\<bar> < power_int 2 (e + 1)"
    and "- 1022 \<le> e" and "e \<le> 1023"
  shows "fl x = of_int (roundTiesToEven (x / power_int 2 (e - 52))) * power_int 2 (e - 52)"
  using binade_unique [OF assms] by (simp add: fl_def Let_def)

lemma fl_third: "fl (1 / 3) = 6004799503160661 / 2 ^ 54"
proof -
  have "fl (1 / 3) = of_int (roundTiesToEven ((1 / 3) / power_int 2 (- 2 - 52))) * power_int 2 (- 2 - 52)"
    by (rule fl_in_binade) (simp_all add: power_int_def power_one_over)
  also have "(1 / 3) / power_int (2::rat) (- 2 - 52) = 18014398509481984 / 3"
    by (simp add: power_int_def power_one_over)
  also have "roundTiesToEven (18014398509481984 / 3) = 6004799503160661"
  proof -
    have "\<lfloor>18014398509481984 / 3 :: rat\<rfloor> = 6004799503160661"
      by (rule floor_unique) simp_all
    then show ?thesis
      by (simp add: roundTiesToEven_def Let_def)
  qed
  finally show ?thesis
    by (simp add: power_int_def power_one_over)
qed

lemma percentDone_3_0: "percentDone 3 0 = 4691249611844266 / 2 ^ 47"
proof -
  have "fl (6004799503160661 / 2 ^ 54 * 100)
      = of_int (roundTiesToEven ((6004799503160661 / 2 ^ 54 * 100) / power_int 2 (5 - 52))) * power_int 2 (5 - 52)"
    by (rule fl_in_binade) (simp_all add: power_int_def power_one_over)
  also have "(6004799503160661 / 2 ^ 54 * 100) / power_int (2::rat) (5 - 52) = 150119987579016525 / 32"
    by (simp add: power_int_def power_one_over)
  also have "roundTiesToEven (150119987579016525 / 32) = 4691249611844266"
  proof -
    have "\<lfloor>150119987579016525 / 32 :: rat\<rfloor> = 4691249611844266"
      by (rule floor_unique) simp_all
    then show ?thesis
      by (simp add: roundTiesToEven_def Let_def)
  qed
  finally show ?thesis
    by (simp add: percentDone_def fdiv_def fmul_def fl_third power_int_def power_one_over)
qed

lemma percentDone_3_0_inexact: "percentDone 3 0 \<noteq> 100 / 3"
  by (simp add: percentDone_3_0)

section \<open>Facts about the built-in operations and the concrete inputs\<close>



lemma parseInt_5: "parseInt ''5'' = Some 5"
  by (simp add: parseInt_def isWhiteSpace_def isRadixDigit_def digitValue_def digitOf_def)

lemma parseInt_7: "parseInt ''7'' = Some 7"
  by (simp add: parseInt_def isWhiteSpace_def isRadixDigit_def digitValue_def digitOf_def)

lemma showNat_digits:
  "showNat (Suc 0) = ''1''" "showNat 2 = ''2''" "showNat 3 = ''3''" "showNat 4 = ''4''" "showNat 5 = ''5''"
  by (simp_all add: showNat.simps decimalDigit_def)

lemma answersText_neq: "answersText ''q1'' ''5'' \<noteq> []"
  by (simp add: answersText_def)

lemma demoParse_5: "demoParse (answersText ''q1'' ''5'') = Some (answersValue ''q1'' ''5'')"
  by (simp add: demoParse_def)

lemma demoParse_7: "demoParse (answersText ''q1'' ''7'') = Some (answersValue ''q1'' ''7'')"
  by (simp add: demoParse_def answersText_def quoted_def dq_def)

lemma analysisText_neq: "analysisText \<noteq> []"
  by (simp add: analysisText_def)

lemma demoParse_analysis: "demoParse analysisText = Some analysisValue"
  by (simp add: demoParse_def analysisText_def answersText_def quoted_def dq_def)

lemma demoState_fields:
  "survey demoState = demoSurvey" "activeParticipants demoState = [personaA, personaB]"
  by (simp_all add: demoState_def)

section \<open>simulateSurveyResponse\<close>

lemma simulateSurveyResponse_fst:
  "fst (simulateSurveyResponse parse p sv r) = Inr (outcomeResponse parse p sv r)"
  by (simp add: simulateSurveyResponse_def outcomeResponse_def split: sum.splits)

lemma outcomeResponse_personaId: "personaId (outcomeResponse parse p sv r) = p_id p"
  by (auto simp: outcomeResponse_def simulateAttempt_def split: sum.splits api_result.splits option.splits if_splits)

lemma callFails_attempt: "callFails parse r \<Longrightarrow> \<exists>e. simulateAttempt parse p sv r = Inl e"
  by (auto simp: callFails_def simulateAttempt_def split: api_result.splits option.splits)

text \<open>
  Claim C10. \<open>simulateSurveyResponse\<close> never rejects: for every persona, survey and
  outcome of the call it resolves with a response whose \<open>personaId\<close> is the id of the
  persona. When the call throws, returns no text or an empty text, or returns a text that
  is not JSON, the response has that id and no answers.
\<close>

theorem simulateSurveyResponse_total:
  "(\<exists>resp. fst (simulateSurveyResponse parse p sv r) = Inr resp \<and> personaId resp = p_id p)
   \<and> (callFails parse r \<longrightarrow>
        fst (simulateSurveyResponse parse p sv r) = Inr \<lparr>personaId = p_id p, answers = []\<rparr>)"
proof
  show "\<exists>resp. fst (simulateSurveyResponse parse p sv r) = Inr resp \<and> personaId resp = p_id p"
    using simulateSurveyResponse_fst [of parse p sv r] outcomeResponse_personaId [of parse p sv r]
    by blast
next
  show "callFails parse r \<longrightarrow>
        fst (simulateSurveyResponse parse p sv r) = Inr \<lparr>personaId = p_id p, answers = []\<rparr>"
  proof
    assume "callFails parse r"
    then obtain e where "simulateAttempt parse p sv r = Inl e"
      using callFails_attempt by blast
    then show "fst (simulateSurveyResponse parse p sv r) = Inr \<lparr>personaId = p_id p, answers = []\<rparr>"
      by (simp add: simulateSurveyResponse_def)
  qed
qed

text \<open>
  Claim C10 at a concrete input: the call returns a text that is not JSON.
\<close>

theorem simulateSurveyResponse_total_witness:
  "callFails demoParse (Response (Some ''not json''))
   \<and> fst (simulateSurveyResponse demoParse personaA demoSurvey (Response (Some ''not json'')))
       = Inr \<lparr>personaId = ''pA'', answers = []\<rparr>"
proof -
  have h: "callFails demoParse (Response (Some ''not json''))"
    by (simp add: callFails_def demoParse_def answersText_def analysisText_def quoted_def dq_def)
  show ?thesis
    using h simulateSurveyResponse_total [of demoParse personaA demoSurvey "Response (Some ''not json'')"]
    by (simp add: personaA_def)
qed


lemma demo_attempt_A:
  "simulateAttempt demoParse personaA demoSurvey (firstAnswers 0)
     = Inr \<lparr>personaId = ''pA'', answers = [JObj [(''questionId'', JStr ''q1''), (''answer'', JNum 5)]]\<rparr>"
  by (simp add: simulateAttempt_def firstAnswers_def answersText_neq demoParse_5 answersValue_def
      demoSurvey_def ToStringProp_def parseInt_5 personaA_def)

lemma demo_attempt_B: "simulateAttempt demoParse personaB demoSurvey (firstAnswers 1) = Inl ApiFailure"
  by (simp add: simulateAttempt_def firstAnswers_def)


text \<open>
  Claim C5 says that every answer to a rating question is an integer from 1 to 5. The
  comment in the source announces a clamp to that range, which the code does not apply:
  when the service answers \<open>7\<close> to the rating question, the response holds 7.
\<close>

theorem rating_not_clamped:
  "fst (simulateSurveyResponse demoParse personaA demoSurvey (Response (Some (answersText ''q1'' ''7''))))
     = Inr \<lparr>personaId = ''pA'',
            answers = [JObj [(''questionId'', JStr ''q1''), (''answer'', JNum 7)]]\<rparr>"
proof -
  have "answersText ''q1'' ''7'' \<noteq> []"
    by (simp add: answersText_def)
  then show ?thesis
    by (simp add: simulateSurveyResponse_def simulateAttempt_def demoParse_7 answersValue_def
        demoSurvey_def ToStringProp_def parseInt_7 personaA_def)
qed

section \<open>The loop of runSimulation\<close>

lemma simulateOne_fst:
  "fst (simulateOne parse n i p r (nr, st)) = nr @ [outcomeResponse parse p (survey st) r]"
  using simulateSurveyResponse_fst [of parse p "survey st" r]
  by (auto simp: simulateOne_def split: prod.splits sum.splits)

lemma simulateOne_snd:
  "snd (simulateOne parse n i p r (nr, st)) =
     st\<lparr>console := console st @ snd (simulateSurveyResponse parse p (survey st) r),
        responses := responses st @ [outcomeResponse parse p (survey st) r],
        simulationProgress := percentDone n i,
        timeline := timeline st @ [Attempted i, ProgressSet (percentDone n i)]\<rparr>"
  using simulateSurveyResponse_fst [of parse p "survey st" r]
  by (auto simp: simulateOne_def setSimulationProgress_def percentDone_def
      split: prod.splits sum.splits)

lemma panelLoop_fst:
  "fst (panelLoop parse api n i ps (nr, st)) = nr @ collected parse api (survey st) i ps"
proof (induction ps arbitrary: i nr st)
  case Nil
  show ?case by (simp add: collected_def)
next
  case (Cons p ps)
  obtain nr1 st1 where s1: "simulateOne parse n i p (api i) (nr, st) = (nr1, st1)"
    by (cases "simulateOne parse n i p (api i) (nr, st)")
  have a: "nr1 = nr @ [outcomeResponse parse p (survey st) (api i)]"
    using simulateOne_fst [of parse n i p "api i" nr st] s1 by simp
  have b: "survey st1 = survey st"
    using simulateOne_snd [of parse n i p "api i" nr st] s1 by simp
  show ?case
    using Cons.IH [of "Suc i" nr1 st1] by (simp add: s1 a b collected_def)
qed

lemma loopEvents_Suc:
  "loopEvents n i (Suc m) = Attempted i # ProgressSet (percentDone n i) # loopEvents n (Suc i) m"
  by (simp add: loopEvents_def upt_conv_Cons del: upt_Suc)

lemma percents_Suc:
  "map (percentDone n) [i..<i + Suc m] = percentDone n i # map (percentDone n) [Suc i..<Suc i + m]"
  by (simp add: upt_conv_Cons del: upt_Suc)

lemma panelLoop_snd:
  "snd (panelLoop parse api n i ps (nr, st)) =
     st\<lparr>console := console st @ collectedLogs parse api (survey st) i ps,
        responses := responses st @ collected parse api (survey st) i ps,
        simulationProgress := last (simulationProgress st # map (percentDone n) [i..<i + length ps]),
        timeline := timeline st @ loopEvents n i (length ps)\<rparr>"
proof (induction ps arbitrary: i nr st)
  case Nil
  show ?case by (simp add: collected_def collectedLogs_def loopEvents_def)
next
  case (Cons p ps)
  obtain nr1 st1 where s1: "simulateOne parse n i p (api i) (nr, st) = (nr1, st1)"
    by (cases "simulateOne parse n i p (api i) (nr, st)")
  have st1: "st1 = st\<lparr>console := console st @ snd (simulateSurveyResponse parse p (survey st) (api i)),
        responses := responses st @ [outcomeResponse parse p (survey st) (api i)],
        simulationProgress := percentDone n i,
        timeline := timeline st @ [Attempted i, ProgressSet (percentDone n i)]\<rparr>"
    using simulateOne_snd [of parse n i p "api i" nr st] s1 by simp
  have "snd (panelLoop parse api n i (p # ps) (nr, st)) = snd (panelLoop parse api n (Suc i) ps (nr1, st1))"
    by (simp add: s1)
  also have "\<dots> = st1\<lparr>console := console st1 @ collectedLogs parse api (survey st1) (Suc i) ps,
        responses := responses st1 @ collected parse api (survey st1) (Suc i) ps,
        simulationProgress :=
          last (simulationProgress st1 # map (percentDone n) [Suc i..<Suc i + length ps]),
        timeline := timeline st1 @ loopEvents n (Suc i) (length ps)\<rparr>"
    by (rule Cons.IH)
  also have "\<dots> = st\<lparr>console := console st @ collectedLogs parse api (survey st) i (p # ps),
        responses := responses st @ collected parse api (survey st) i (p # ps),
        simulationProgress :=
          last (simulationProgress st # map (percentDone n) [i..<i + length (p # ps)]),
        timeline := timeline st @ loopEvents n i (length (p # ps))\<rparr>"
    using percents_Suc [of n i "length ps"]
    by (simp add: st1 collected_def collectedLogs_def loopEvents_Suc del: upt_Suc)
  finally show ?case .
qed

lemma length_collected: "length (collected parse api sv i ps) = length ps"
  by (simp add: collected_def)

lemma collected_nth:
  "i < length ps \<Longrightarrow> collected parse api sv k ps ! i = outcomeResponse parse (ps ! i) sv (api (k + i))"
  by (simp add: collected_def nth_enumerate_eq)

lemma collectedLogs_mem:
  assumes "i < length ps" and "simulateAttempt parse (ps ! i) sv (api (k + i)) = Inl e"
  shows "SimulationFailedFor (p_name (ps ! i)) e \<in> set (collectedLogs parse api sv k ps)"
proof -
  have "(k + i, ps ! i) \<in> set (enumerate k ps)"
    using assms(1) by (metis nth_enumerate_eq length_enumerate nth_mem)
  moreover have "SimulationFailedFor (p_name (ps ! i)) e
      \<in> set (snd (simulateSurveyResponse parse (ps ! i) sv (api (k + i))))"
    using assms(2) by (simp add: simulateSurveyResponse_def)
  ultimately show ?thesis
    by (force simp: collectedLogs_def)
qed

lemma percents_strict:
  assumes "n \<le> 2 ^ 32"
  shows "sorted_wrt (<) (map (percentDone n) [0..<n])"
proof -
  have "sorted_wrt (\<lambda>x y. percentDone n x < percentDone n y) [0..<n]"
  proof (rule sorted_wrt_mono_rel [OF _ sorted_wrt_upt])
    fix x y :: nat
    assume "x \<in> set [0..<n]" and "y \<in> set [0..<n]" and "x < y"
    then show "percentDone n x < percentDone n y"
      using assms by (intro percentDone_strict) simp_all
  qed
  then show ?thesis
    by (simp only: sorted_wrt_map)
qed

lemma percents_positive:
  assumes "n \<le> 2 ^ 32" and "x \<in> set (map (percentDone n) [0..<n])"
  shows "0 < x"
  using assms percentDone_positive by auto

lemma percents_last: "0 < n \<Longrightarrow> last (map (percentDone n) [0..<n]) = 100"
  by (simp add: last_map percentDone_last)

lemma panelLoop_run:
  "panelLoop parse api (length (activeParticipants st)) 0 (activeParticipants st)
       ([], setSimulationProgress 0 (st\<lparr>step := SIMULATION, responses := []\<rparr>))
     = (collected parse api (survey st) 0 (activeParticipants st), afterLoop parse api st)"
proof -
  let ?st0 = "setSimulationProgress 0 (st\<lparr>step := SIMULATION, responses := []\<rparr>)"
  let ?ps = "activeParticipants st"
  let ?r = "panelLoop parse api (length ?ps) 0 ?ps ([], ?st0)"
  have sv: "survey ?st0 = survey st"
    by (simp add: setSimulationProgress_def)
  have f: "fst ?r = collected parse api (survey st) 0 ?ps"
    using panelLoop_fst [of parse api "length ?ps" 0 ?ps "[]" ?st0] by (simp add: sv)
  have s: "snd ?r = afterLoop parse api st"
    using panelLoop_snd [of parse api "length ?ps" 0 ?ps "[]" ?st0]
    by (simp add: sv afterLoop_def Let_def setSimulationProgress_def)
  show ?thesis
    using f s by (metis prod.collapse)
qed

lemma runSimulation_nonempty:
  assumes "activeParticipants st \<noteq> []"
  shows "runSimulation parse api apiA st =
     (case analyzeResults parse (survey st) (collected parse api (survey st) 0 (activeParticipants st))
             (activeParticipants st) apiA of
        Inr analysisResult \<Rightarrow>
          (afterLoop parse api st)\<lparr>isLoading := True, analysis := Some analysisResult, step := RESULTS, isLoading := False\<rparr>
      | Inl e \<Rightarrow>
          (afterLoop parse api st)\<lparr>isLoading := True,
             console := console (afterLoop parse api st) @ [AnalysisFailedLog e],
             alerts := alerts (afterLoop parse api st) @ [''Simulation finished, but analysis failed.''],
             isLoading := False\<rparr>)"
proof -
  have "collected parse api (survey st) 0 (activeParticipants st) \<noteq> []"
    using assms length_collected [of parse api "survey st" 0 "activeParticipants st"]
    by (metis length_0_conv)
  then show ?thesis
    using assms
    by (simp add: runSimulation_def panelLoop_run Let_def split: sum.splits)
qed

lemma responses_runSimulation:
  assumes "activeParticipants st \<noteq> []"
  shows "responses (runSimulation parse api apiA st)
           = collected parse api (survey st) 0 (activeParticipants st)"
  using assms
  by (simp add: runSimulation_nonempty afterLoop_def Let_def setSimulationProgress_def split: sum.splits)

lemma console_runSimulation:
  assumes "activeParticipants st \<noteq> []"
  shows "set (collectedLogs parse api (survey st) 0 (activeParticipants st))
           \<subseteq> set (console (runSimulation parse api apiA st))"
  using assms
  by (auto simp add: runSimulation_nonempty afterLoop_def Let_def setSimulationProgress_def split: sum.splits)

lemma demo_collected:
  "collected demoParse firstAnswers demoSurvey 0 [personaA, personaB]
     = [\<lparr>personaId = ''pA'', answers = [JObj [(''questionId'', JStr ''q1''), (''answer'', JNum 5)]]\<rparr>,
        \<lparr>personaId = ''pB'', answers = []\<rparr>]"
proof -
  have "collected demoParse firstAnswers demoSurvey 0 [personaA, personaB]
      = [outcomeResponse demoParse personaA demoSurvey (firstAnswers 0),
         outcomeResponse demoParse personaB demoSurvey (firstAnswers 1)]"
    by (simp add: collected_def)
  moreover have "p_id personaB = ''pB''"
    by (simp add: personaB_def)
  ultimately show ?thesis
    using demo_attempt_B by (simp add: outcomeResponse_def demo_attempt_A)
qed

lemma demo_dataContext:
  "\<exists>ctx. dataContext demoSurvey
     [\<lparr>personaId = ''pA'', answers = [JObj [(''questionId'', JStr ''q1''), (''answer'', JNum 5)]]\<rparr>,
      \<lparr>personaId = ''pB'', answers = []\<rparr>] [personaA, personaB] = Inr ctx"
  by (simp add: dataContext_def participantLine_def demoSurvey_def Let_def ToStringProp_def)

lemma demo_analysis_throws:
  "analyzeResults demoParse (survey demoState)
     (collected demoParse firstAnswers (survey demoState) 0 (activeParticipants demoState))
     (activeParticipants demoState) Throws = Inl ApiFailure"
proof -
  obtain ctx where "dataContext demoSurvey
     [\<lparr>personaId = ''pA'', answers = [JObj [(''questionId'', JStr ''q1''), (''answer'', JNum 5)]]\<rparr>,
      \<lparr>personaId = ''pB'', answers = []\<rparr>] [personaA, personaB] = Inr ctx"
    using demo_dataContext by blast
  then show ?thesis
    by (simp add: demo_collected analyzeResults_def demoState_fields)
qed

lemma demo_analysis_ok:
  "analyzeResults demoParse (survey demoState)
     (collected demoParse firstAnswers (survey demoState) 0 (activeParticipants demoState))
     (activeParticipants demoState) (Response (Some analysisText)) = Inr analysisValue"
proof -
  obtain ctx where "dataContext demoSurvey
     [\<lparr>personaId = ''pA'', answers = [JObj [(''questionId'', JStr ''q1''), (''answer'', JNum 5)]]\<rparr>,
      \<lparr>personaId = ''pB'', answers = []\<rparr>] [personaA, personaB] = Inr ctx"
    using demo_dataContext by blast
  then show ?thesis
    by (simp add: demo_collected analyzeResults_def analysisText_neq demoParse_analysis
        demoState_fields)
qed

section \<open>runSimulation\<close>

text \<open>
  Claim C1, as the code has it. A run on a panel that is not empty collects one response
  per persona, in the order of the panel, and never raises. The response at index \<open>i\<close>
  carries the id of the persona at index \<open>i\<close>. When the attempt for a persona succeeds the
  response is the sanitised one; when it fails, the failure is written to the console and
  the response is a placeholder with the id of the persona and no answers. The placeholder
  is appended like any other response, so every response of another persona is kept. The
  code counts no failures.
\<close>

theorem runSimulation_keeps_every_persona:
  assumes "activeParticipants st \<noteq> []" and "i < length (activeParticipants st)"
  shows "length (responses (runSimulation parse api apiA st)) = length (activeParticipants st)
     \<and> personaId (responses (runSimulation parse api apiA st) ! i) = p_id (activeParticipants st ! i)
     \<and> (\<forall>resp. simulateAttempt parse (activeParticipants st ! i) (survey st) (api i) = Inr resp
            \<longrightarrow> responses (runSimulation parse api apiA st) ! i = resp)
     \<and> (\<forall>e. simulateAttempt parse (activeParticipants st ! i) (survey st) (api i) = Inl e
            \<longrightarrow> responses (runSimulation parse api apiA st) ! i
                  = \<lparr>personaId = p_id (activeParticipants st ! i), answers = []\<rparr>
              \<and> SimulationFailedFor (p_name (activeParticipants st ! i)) e
                  \<in> set (console (runSimulation parse api apiA st)))"
proof (intro conjI allI impI)
  note i = assms(2)
  show "length (responses (runSimulation parse api apiA st)) = length (activeParticipants st)"
    by (simp add: responses_runSimulation [OF assms(1)] length_collected)
  show "personaId (responses (runSimulation parse api apiA st) ! i) = p_id (activeParticipants st ! i)"
    using i by (simp add: responses_runSimulation [OF assms(1)] collected_nth outcomeResponse_personaId)
  {
    fix resp
    assume a: "simulateAttempt parse (activeParticipants st ! i) (survey st) (api i) = Inr resp"
    show "responses (runSimulation parse api apiA st) ! i = resp"
      using i a by (simp add: responses_runSimulation [OF assms(1)] collected_nth outcomeResponse_def)
  }
  {
    fix e
    assume a: "simulateAttempt parse (activeParticipants st ! i) (survey st) (api i) = Inl e"
    show "responses (runSimulation parse api apiA st) ! i
            = \<lparr>personaId = p_id (activeParticipants st ! i), answers = []\<rparr>"
      using i a by (simp add: responses_runSimulation [OF assms(1)] collected_nth outcomeResponse_def)
    show "SimulationFailedFor (p_name (activeParticipants st ! i)) e
            \<in> set (console (runSimulation parse api apiA st))"
      using collectedLogs_mem [of i "activeParticipants st" parse "survey st" api 0 e] i a
        console_runSimulation [OF assms(1), of parse api apiA]
      by auto
  }
qed

text \<open>
  Claim C1, as the code has it, on the demo panel: the first persona answers and the call
  for the second one throws.
\<close>

theorem runSimulation_keeps_every_persona_witness:
  "activeParticipants demoState \<noteq> []
   \<and> simulateAttempt demoParse personaB demoSurvey (firstAnswers 1) = Inl ApiFailure
   \<and> responses (runSimulation demoParse firstAnswers Throws demoState) ! 1
        = \<lparr>personaId = ''pB'', answers = []\<rparr>
   \<and> responses (runSimulation demoParse firstAnswers Throws demoState) ! 0
        = \<lparr>personaId = ''pA'', answers = [JObj [(''questionId'', JStr ''q1''), (''answer'', JNum 5)]]\<rparr>
   \<and> SimulationFailedFor ''Bob'' ApiFailure
        \<in> set (console (runSimulation demoParse firstAnswers Throws demoState))"
proof -
  have h: "activeParticipants demoState \<noteq> []"
    by (simp add: demoState_def)
  have ps: "activeParticipants demoState = [personaA, personaB]" "survey demoState = demoSurvey"
    by (simp_all add: demoState_def)
  have i1: "1 < length (activeParticipants demoState)" and i0: "0 < length (activeParticipants demoState)"
    by (simp_all add: demoState_def)
  have b: "responses (runSimulation demoParse firstAnswers Throws demoState) ! 1
        = \<lparr>personaId = p_id personaB, answers = []\<rparr>
     \<and> SimulationFailedFor (p_name personaB) ApiFailure
        \<in> set (console (runSimulation demoParse firstAnswers Throws demoState))"
    using runSimulation_keeps_every_persona [OF h i1, of demoParse firstAnswers Throws] demo_attempt_B
    by (simp add: ps)
  have a: "responses (runSimulation demoParse firstAnswers Throws demoState) ! 0
        = \<lparr>personaId = ''pA'', answers = [JObj [(''questionId'', JStr ''q1''), (''answer'', JNum 5)]]\<rparr>"
    using runSimulation_keeps_every_persona [OF h i0, of demoParse firstAnswers Throws] demo_attempt_A
    by (simp add: ps)
  show ?thesis
    using h a b demo_attempt_B by (simp add: personaB_def)
qed

text \<open>
  Claim C1 as stated fails: when the call throws for both personas of the demo panel, the
  run does not end with an empty sequence of responses but with one placeholder for each
  persona.
\<close>

theorem all_calls_fail_counterexample:
  "responses (runSimulation demoParse allThrow Throws demoState) \<noteq> []
   \<and> responses (runSimulation demoParse allThrow Throws demoState)
        = [\<lparr>personaId = ''pA'', answers = []\<rparr>, \<lparr>personaId = ''pB'', answers = []\<rparr>]"
proof -
  have h: "activeParticipants demoState \<noteq> []"
    by (simp add: demoState_def)
  have "responses (runSimulation demoParse allThrow Throws demoState)
        = collected demoParse allThrow (survey demoState) 0 (activeParticipants demoState)"
    by (rule responses_runSimulation [OF h])
  also have "\<dots> = [\<lparr>personaId = ''pA'', answers = []\<rparr>, \<lparr>personaId = ''pB'', answers = []\<rparr>]"
    by (simp add: collected_def outcomeResponse_def simulateAttempt_def allThrow_def
        demoState_def personaA_def personaB_def)
  finally show ?thesis by simp
qed

text \<open>
  Claim C2. A run on a panel of \<open>N \<ge> 1\<close> personas resets the progress to 0 and then
  updates it exactly \<open>N\<close> times: for \<open>i = 0, \<dots>, N - 1\<close>, in this order, the call for the
  persona at index \<open>i\<close> settles and then the progress is set to \<open>((i + 1) / N) * 100\<close>,
  computed in double arithmetic. The values increase strictly, the last one is exactly
  100, and this holds whatever the outcomes of the calls are. An array of the language has
  fewer than \<open>2^32\<close> elements, which bounds \<open>N\<close>.
\<close>

theorem runSimulation_progress:
  assumes "activeParticipants st \<noteq> []" and "length (activeParticipants st) < 2 ^ 32"
  shows "(let N = length (activeParticipants st);
              us = map (\<lambda>i. fmul (fdiv (of_nat (i + 1)) (of_nat N)) 100) [0..<N]
          in timeline (runSimulation parse api apiA st)
               = timeline st @ ProgressSet 0
                   # concat (map (\<lambda>i. [Attempted i,
                                        ProgressSet (fmul (fdiv (of_nat (i + 1)) (of_nat N)) 100)])
                              [0..<N])
           \<and> length us = N
           \<and> sorted_wrt (<) (0 # us)
           \<and> last us = 100
           \<and> simulationProgress (runSimulation parse api apiA st) = 100)"
proof -
  let ?N = "length (activeParticipants st)"
  have N: "0 < ?N" using assms(1) by simp
  have N32: "?N \<le> 2 ^ 32" using assms(2) by simp
  have ev: "concat (map (\<lambda>i. [Attempted i, ProgressSet (percentDone ?N i)]) [0..<?N])
              = loopEvents ?N 0 ?N"
    by (simp add: loopEvents_def)
  have ne: "map (percentDone ?N) [0..<?N] \<noteq> []"
    using N by simp
  have l: "last (map (percentDone ?N) [0..<?N]) = 100"
    using N by (rule percents_last)
  have t: "timeline (runSimulation parse api apiA st)
             = timeline st @ ProgressSet 0 # loopEvents ?N 0 ?N"
    using assms(1)
    by (simp add: runSimulation_nonempty afterLoop_def Let_def setSimulationProgress_def
        split: sum.splits)
  have s: "sorted_wrt (<) (0 # map (percentDone ?N) [0..<?N])"
    using percents_strict [OF N32] percents_positive [OF N32] by simp
  have p: "simulationProgress (runSimulation parse api apiA st) = 100"
    using assms(1) ne l
    by (simp add: runSimulation_nonempty afterLoop_def Let_def setSimulationProgress_def
        split: sum.splits)
  have n: "length (map (percentDone ?N) [0..<?N]) = ?N"
    by simp
  show ?thesis
    unfolding Let_def percentDone_def [symmetric] ev using t s l p n by simp
qed

text \<open>
  Claim C2 on the demo panel of two personas, the second of which fails.
\<close>

theorem runSimulation_progress_witness:
  "activeParticipants demoState \<noteq> []
   \<and> length (activeParticipants demoState) < 2 ^ 32
   \<and> timeline (runSimulation demoParse firstAnswers Throws demoState)
        = [ProgressSet 0, Attempted 0, ProgressSet 50, Attempted 1, ProgressSet 100]
   \<and> simulationProgress (runSimulation demoParse firstAnswers Throws demoState) = 100"
proof -
  have h: "activeParticipants demoState \<noteq> []"
    by (simp add: demoState_def)
  have b: "length (activeParticipants demoState) < 2 ^ 32"
    by (simp add: demoState_def)
  have n: "length (activeParticipants demoState) = 2" "timeline demoState = []"
    by (simp_all add: demoState_def)
  have u: "[0..<2] = [0, Suc 0]"
    by (simp add: upt_rec)
  have v: "fmul (fdiv 1 2) 100 = 50" "fmul (fdiv 2 2) 100 = 100"
    by (simp_all add: fmul_def fdiv_def fl_half fl_50 fl_1 fl_100)
  show ?thesis
    using h b runSimulation_progress [OF h b, of demoParse firstAnswers Throws]
    by (simp add: n u v Let_def)
qed

text \<open>
  Claim C8, as the code has it. When \<open>analyzeResults\<close> fails on the collected responses,
  the step stays \<open>SIMULATION\<close>, one dialog tells the operator that the analysis failed, the
  collected responses and the previous analysis are left as they are, and the loading flag
  is cleared. When it succeeds the run reaches \<open>RESULTS\<close> and shows no dialog, whatever
  happened to the calls for the personas. In both cases the number of responses is the
  number of personas: a failed call does not lower it, it leaves a response without
  answers.
\<close>

theorem analysis_failure_halts:
  assumes "activeParticipants st \<noteq> []"
  shows "(\<forall>e. analyzeResults parse (survey st)
               (collected parse api (survey st) 0 (activeParticipants st)) (activeParticipants st) apiA = Inl e
            \<longrightarrow> step (runSimulation parse api apiA st) = SIMULATION
              \<and> alerts (runSimulation parse api apiA st)
                  = alerts st @ [''Simulation finished, but analysis failed.'']
              \<and> responses (runSimulation parse api apiA st)
                  = collected parse api (survey st) 0 (activeParticipants st)
              \<and> analysis (runSimulation parse api apiA st) = analysis st
              \<and> isLoading (runSimulation parse api apiA st) = False)
       \<and> (\<forall>a. analyzeResults parse (survey st)
               (collected parse api (survey st) 0 (activeParticipants st)) (activeParticipants st) apiA = Inr a
            \<longrightarrow> step (runSimulation parse api apiA st) = RESULTS
              \<and> alerts (runSimulation parse api apiA st) = alerts st
              \<and> analysis (runSimulation parse api apiA st) = Some a)
       \<and> length (responses (runSimulation parse api apiA st)) = length (activeParticipants st)"
proof (intro conjI allI impI)
  show "length (responses (runSimulation parse api apiA st)) = length (activeParticipants st)"
    by (simp add: responses_runSimulation [OF assms] length_collected)
next
  fix e
  assume a: "analyzeResults parse (survey st)
               (collected parse api (survey st) 0 (activeParticipants st)) (activeParticipants st) apiA = Inl e"
  have r: "runSimulation parse api apiA st = (afterLoop parse api st)\<lparr>isLoading := True,
             console := console (afterLoop parse api st) @ [AnalysisFailedLog e],
             alerts := alerts (afterLoop parse api st) @ [''Simulation finished, but analysis failed.''],
             isLoading := False\<rparr>"
    by (simp add: runSimulation_nonempty [OF assms] a)
  show "step (runSimulation parse api apiA st) = SIMULATION"
    by (simp add: r afterLoop_def Let_def setSimulationProgress_def)
  show "alerts (runSimulation parse api apiA st) = alerts st @ [''Simulation finished, but analysis failed.'']"
    by (simp add: r afterLoop_def Let_def setSimulationProgress_def)
  show "responses (runSimulation parse api apiA st) = collected parse api (survey st) 0 (activeParticipants st)"
    by (rule responses_runSimulation [OF assms])
  show "analysis (runSimulation parse api apiA st) = analysis st"
    by (simp add: r afterLoop_def Let_def setSimulationProgress_def)
  show "isLoading (runSimulation parse api apiA st) = False"
    by (simp add: r)
next
  fix a
  assume a: "analyzeResults parse (survey st)
               (collected parse api (survey st) 0 (activeParticipants st)) (activeParticipants st) apiA = Inr a"
  have r: "runSimulation parse api apiA st = (afterLoop parse api st)\<lparr>isLoading := True,
             analysis := Some a, step := RESULTS, isLoading := False\<rparr>"
    by (simp add: runSimulation_nonempty [OF assms] a)
  show "step (runSimulation parse api apiA st) = RESULTS"
    by (simp add: r)
  show "alerts (runSimulation parse api apiA st) = alerts st"
    by (simp add: r afterLoop_def Let_def setSimulationProgress_def)
  show "analysis (runSimulation parse api apiA st) = Some a"
    by (simp add: r)
qed

text \<open>
  Claim C8, as the code has it, on the demo panel: once with an analysis call that throws,
  once with one that answers; in both runs the call for the second persona throws.
\<close>

theorem analysis_failure_halts_witness:
  "activeParticipants demoState \<noteq> []
   \<and> step (runSimulation demoParse firstAnswers Throws demoState) = SIMULATION
   \<and> alerts (runSimulation demoParse firstAnswers Throws demoState)
        = [''Simulation finished, but analysis failed.'']
   \<and> analysis (runSimulation demoParse firstAnswers Throws demoState) = None
   \<and> step (runSimulation demoParse firstAnswers (Response (Some analysisText)) demoState) = RESULTS
   \<and> alerts (runSimulation demoParse firstAnswers (Response (Some analysisText)) demoState) = []"
proof -
  have h: "activeParticipants demoState \<noteq> []"
    by (simp add: demoState_def)
  have s: "alerts demoState = []" "analysis demoState = None"
    by (simp_all add: demoState_def)
  have a: "step (runSimulation demoParse firstAnswers Throws demoState) = SIMULATION
   \<and> alerts (runSimulation demoParse firstAnswers Throws demoState)
        = [''Simulation finished, but analysis failed.'']
   \<and> analysis (runSimulation demoParse firstAnswers Throws demoState) = None"
    using analysis_failure_halts [OF h, of demoParse firstAnswers Throws] demo_analysis_throws
    by (simp add: s)
  have b: "step (runSimulation demoParse firstAnswers (Response (Some analysisText)) demoState) = RESULTS
   \<and> alerts (runSimulation demoParse firstAnswers (Response (Some analysisText)) demoState) = []"
    using analysis_failure_halts [OF h, of demoParse firstAnswers "Response (Some analysisText)"]
      demo_analysis_ok
    by (simp add: s)
  show ?thesis
    using h a b by simp
qed

text \<open>
  Claim C8 as stated fails where it says that a failed call for a persona lowers the
  number of responses: with the call for the second of two personas throwing, the run
  ends with two responses.
\<close>

theorem failed_persona_counted_counterexample:
  "simulateAttempt demoParse personaB demoSurvey (firstAnswers 1) = Inl ApiFailure
   \<and> length (activeParticipants demoState) = 2
   \<and> length (responses (runSimulation demoParse firstAnswers (Response (Some analysisText)) demoState)) = 2"
proof -
  have h: "activeParticipants demoState \<noteq> []"
    by (simp add: demoState_def)
  have "length (responses (runSimulation demoParse firstAnswers (Response (Some analysisText)) demoState))
        = length (activeParticipants demoState)"
    by (simp add: responses_runSimulation [OF h] length_collected)
  moreover have "length (activeParticipants demoState) = 2"
    by (simp add: demoState_def)
  ultimately show ?thesis
    using demo_attempt_B by simp
qed

section \<open>Missing and empty response text\<close>

text \<open>
  Claim C4, as the code has it. \<open>simulateSurveyResponse\<close> resolves with the same response
  whether the call throws or returns a missing or an empty text. \<open>analyzeResults\<close> rejects in
  all three cases. \<open>generatePersonas\<close> rejects when the call throws, and resolves with the
  empty array when the text is missing or empty.
\<close>

theorem empty_text_outcomes:
  "fst (simulateSurveyResponse parse p sv (Response None)) = fst (simulateSurveyResponse parse p sv Throws)
   \<and> fst (simulateSurveyResponse parse p sv (Response (Some []))) = fst (simulateSurveyResponse parse p sv Throws)
   \<and> isl (analyzeResults parse sv rs ps Throws)
   \<and> isl (analyzeResults parse sv rs ps (Response None))
   \<and> isl (analyzeResults parse sv rs ps (Response (Some [])))
   \<and> generatePersonas parse Throws = Inl ApiFailure
   \<and> generatePersonas parse (Response None) = Inr (JArr [])
   \<and> generatePersonas parse (Response (Some [])) = Inr (JArr [])"
  by (simp add: simulateSurveyResponse_def simulateAttempt_def analyzeResults_def generatePersonas_def
      split: sum.splits)

text \<open>
  Claim C4 as stated fails for \<open>generatePersonas\<close>: a missing text gives the empty array,
  a thrown error gives a rejection.
\<close>

theorem generatePersonas_empty_text_counterexample:
  "generatePersonas demoParse (Response None) = Inr (JArr [])
   \<and> generatePersonas demoParse Throws = Inl ApiFailure
   \<and> generatePersonas demoParse (Response None) \<noteq> generatePersonas demoParse Throws"
  by (simp add: generatePersonas_def)

section \<open>Frequency tables\<close>

lemma seedBuckets_rating:
  "q_type q = RATING_SCALE \<Longrightarrow>
     seedBuckets q = [''1'' \<mapsto> Count 0, ''2'' \<mapsto> Count 0, ''3'' \<mapsto> Count 0, ''4'' \<mapsto> Count 0, ''5'' \<mapsto> Count 0]"
  by (simp add: seedBuckets_def assign_def showNat_digits)

lemma countResponses_no_answer:
  "\<forall>r \<in> set rs. findAnswer (q_id q) (answers r) = Inr None \<Longrightarrow> countResponses q rs m = Inr m"
  by (induction rs arbitrary: m) (simp_all add: countResponse_def)

lemma seedBuckets_choice:
  "seedBuckets choiceQuestion = [''Yes'' \<mapsto> Count 0, ''No'' \<mapsto> Count 0]"
  by (simp add: seedBuckets_def choiceQuestion_def assign_def)

lemma countResponse_fresh_text:
  assumes "findAnswer (q_id q) (answers r) = Inr (Some (JObj kvs))"
    and "map_of kvs ''answer'' = Some (JStr val)"
    and "val \<notin> set ObjectPrototypeKeys"
  shows "countResponse q r m =
           Inr (m(val \<mapsto> (case m val of None \<Rightarrow> Count 1 | Some (Count n) \<Rightarrow> Count (n + 1) | Some NaN \<Rightarrow> NaN)))"
  using assms
  by (auto simp: countResponse_def isDefined_def increment_def assign_def ObjectPrototypeKeys_def
      split: option.splits count.splits)

text \<open>
  Claim C6. For a rating question that no response answers, the frequency table has
  exactly the five buckets 1 to 5, each with count 0.
\<close>

theorem rating_buckets_zero_seeded:
  assumes "q_type q = RATING_SCALE"
    and "\<forall>r \<in> set rs. findAnswer (q_id q) (answers r) = Inr None"
  shows "\<exists>m. chartDataMap q rs = Inr m
            \<and> dom m = {''1'', ''2'', ''3'', ''4'', ''5''}
            \<and> (\<forall>k \<in> dom m. m k = Some (Count 0))"
proof -
  let ?m = "[''1'' \<mapsto> Count 0, ''2'' \<mapsto> Count 0, ''3'' \<mapsto> Count 0, ''4'' \<mapsto> Count 0, ''5'' \<mapsto> Count 0]"
  have c: "chartDataMap q rs = Inr ?m"
    using countResponses_no_answer [OF assms(2)] seedBuckets_rating [OF assms(1)]
    by (simp add: chartDataMap_def)
  have d: "dom ?m = {''1'', ''2'', ''3'', ''4'', ''5''}"
    by auto
  have z: "\<forall>k \<in> dom ?m. ?m k = Some (Count 0)"
    by auto
  show ?thesis
    using c d z by blast
qed

text \<open>
  Claim C6 on the demo rating question, with one response that answers another question.
\<close>

theorem rating_buckets_zero_seeded_witness:
  "q_type ratingQuestion = RATING_SCALE
   \<and> findAnswer (q_id ratingQuestion) (answers (textResponse ''pA'' ''q2'' ''nothing'')) = Inr None
   \<and> (\<exists>m. chartDataMap ratingQuestion [textResponse ''pA'' ''q2'' ''nothing''] = Inr m
          \<and> dom m = {''1'', ''2'', ''3'', ''4'', ''5''}
          \<and> m ''1'' = Some (Count 0) \<and> m ''2'' = Some (Count 0) \<and> m ''3'' = Some (Count 0)
          \<and> m ''4'' = Some (Count 0) \<and> m ''5'' = Some (Count 0))"
proof -
  have a: "q_type ratingQuestion = RATING_SCALE"
    by (simp add: ratingQuestion_def)
  have f: "findAnswer (q_id ratingQuestion) (answers (textResponse ''pA'' ''q2'' ''nothing'')) = Inr None"
    by (simp add: ratingQuestion_def textResponse_def)
  have b: "\<forall>r \<in> set [textResponse ''pA'' ''q2'' ''nothing''].
         findAnswer (q_id ratingQuestion) (answers r) = Inr None"
    using f by simp
  from rating_buckets_zero_seeded [OF a b]
  obtain m where c: "chartDataMap ratingQuestion [textResponse ''pA'' ''q2'' ''nothing''] = Inr m"
    and d: "dom m = {''1'', ''2'', ''3'', ''4'', ''5''}"
    and z: "\<forall>k \<in> dom m. m k = Some (Count 0)"
    by (elim exE conjE)
  have "''1'' \<in> dom m" "''2'' \<in> dom m" "''3'' \<in> dom m" "''4'' \<in> dom m" "''5'' \<in> dom m"
    unfolding d by simp_all
  then have v: "m ''1'' = Some (Count 0) \<and> m ''2'' = Some (Count 0) \<and> m ''3'' = Some (Count 0)
          \<and> m ''4'' = Some (Count 0) \<and> m ''5'' = Some (Count 0)"
    using z by blast
  show ?thesis
  proof (intro conjI)
    show "q_type ratingQuestion = RATING_SCALE" by (rule a)
    show "findAnswer (q_id ratingQuestion) (answers (textResponse ''pA'' ''q2'' ''nothing'')) = Inr None"
      by (rule f)
    show "\<exists>m. chartDataMap ratingQuestion [textResponse ''pA'' ''q2'' ''nothing''] = Inr m
          \<and> dom m = {''1'', ''2'', ''3'', ''4'', ''5''}
          \<and> m ''1'' = Some (Count 0) \<and> m ''2'' = Some (Count 0) \<and> m ''3'' = Some (Count 0)
          \<and> m ''4'' = Some (Count 0) \<and> m ''5'' = Some (Count 0)"
      using c d v by (intro exI [of _ m] conjI) (elim conjE, assumption)+
  qed
qed

text \<open>
  Claim C7 says that an answer outside the declared options gets a bucket of its own with
  a count of at least 1. The table is an object literal, and the test
  \<open>dataMap[val] !== undefined\<close> also finds what the object inherits: for the answer
  \<open>constructor\<close> the bucket is created with the count \<open>NaN\<close>, and for the answer
  \<open>__proto__\<close> no bucket is created. Any other text, such as \<open>Maybe\<close>, is counted as the
  claim says.
\<close>

theorem unrecognized_answer_prototype_name:
  "chartDataMap choiceQuestion [textResponse ''pA'' ''q3'' ''constructor'']
     = Inr [''Yes'' \<mapsto> Count 0, ''No'' \<mapsto> Count 0, ''constructor'' \<mapsto> NaN]
   \<and> chartDataMap choiceQuestion [textResponse ''pA'' ''q3'' ''__proto__'']
     = Inr [''Yes'' \<mapsto> Count 0, ''No'' \<mapsto> Count 0]
   \<and> chartDataMap choiceQuestion [textResponse ''pA'' ''q3'' ''Maybe'']
     = Inr [''Yes'' \<mapsto> Count 0, ''No'' \<mapsto> Count 0, ''Maybe'' \<mapsto> Count 1]"
proof -
  have q: "q_id choiceQuestion = ''q3''"
    by (simp add: choiceQuestion_def)
  show ?thesis
    by (simp add: chartDataMap_def seedBuckets_choice countResponse_def textResponse_def
        q isDefined_def increment_def assign_def ObjectPrototypeKeys_def)
qed

section \<open>Survey templates\<close>

lemma cellAt_append: "a < length h \<Longrightarrow> cellAt (h @ e) a = cellAt h a"
  by (simp add: cellAt_def nth_append)

lemma cellAt_Some_less: "cellAt h a = Some c \<Longrightarrow> a < length h"
  by (simp add: cellAt_def split: if_splits)

lemma cellAt_update: "a \<noteq> b \<Longrightarrow> cellAt (h[a := c]) b = cellAt h b"
  by (simp add: cellAt_def)

lemma readQuestion_append:
  assumes "readQuestion h a = Some q"
  shows "readQuestion (h @ e) a = Some q"
proof -
  obtain i t ty oo where c: "cellAt h a = Some (QuestionObj i t ty oo)"
    using assms by (auto simp: readQuestion_def split: option.splits cell.splits)
  have a: "cellAt (h @ e) a = Some (QuestionObj i t ty oo)"
    using c cellAt_append [OF cellAt_Some_less [OF c]] by simp
  show ?thesis
  proof (cases oo)
    case None
    then show ?thesis using assms c a by (simp add: readQuestion_def)
  next
    case (Some oa)
    then obtain os where o: "cellAt h oa = Some (StringArr os)"
      using assms c by (auto simp: readQuestion_def split: option.splits cell.splits)
    have "cellAt (h @ e) oa = Some (StringArr os)"
      using o cellAt_append [OF cellAt_Some_less [OF o]] by simp
    then show ?thesis using assms c a o Some by (simp add: readQuestion_def)
  qed
qed

lemma questionCells_append:
  assumes "readQuestion h a = Some q"
  shows "questionCells (h @ e) a = questionCells h a"
proof -
  obtain i t ty oo where c: "cellAt h a = Some (QuestionObj i t ty oo)"
    using assms by (auto simp: readQuestion_def split: option.splits cell.splits)
  have "cellAt (h @ e) a = cellAt h a"
    using cellAt_append [OF cellAt_Some_less [OF c]] .
  then show ?thesis by (simp add: questionCells_def)
qed

lemma questionCells_bound:
  assumes "readQuestion h a = Some q"
  shows "set (questionCells h a) \<subseteq> {..<length h}"
proof -
  obtain i t ty oo where c: "cellAt h a = Some (QuestionObj i t ty oo)"
    using assms by (auto simp: readQuestion_def split: option.splits cell.splits)
  have a: "a < length h" using cellAt_Some_less [OF c] .
  show ?thesis
  proof (cases oo)
    case None
    then show ?thesis using c a by (simp add: questionCells_def)
  next
    case (Some oa)
    then obtain os where o: "cellAt h oa = Some (StringArr os)"
      using assms c by (auto simp: readQuestion_def split: option.splits cell.splits)
    then show ?thesis using c a Some cellAt_Some_less [OF o] by (simp add: questionCells_def)
  qed
qed

lemma readQuestion_update:
  assumes "readQuestion h a = Some q" and "b \<notin> set (questionCells h a)"
  shows "readQuestion (h[b := c]) a = Some q"
proof -
  obtain i t ty oo where c: "cellAt h a = Some (QuestionObj i t ty oo)"
    using assms(1) by (auto simp: readQuestion_def split: option.splits cell.splits)
  have ba: "b \<noteq> a" using assms(2) by (simp add: questionCells_def)
  have a: "cellAt (h[b := c]) a = Some (QuestionObj i t ty oo)"
    using c cellAt_update [OF ba] by simp
  show ?thesis
  proof (cases oo)
    case None
    then show ?thesis using assms(1) c a by (simp add: readQuestion_def)
  next
    case (Some oa)
    then have "b \<noteq> oa" using assms(2) c by (simp add: questionCells_def)
    then have "cellAt (h[b := c]) oa = cellAt h oa" by (rule cellAt_update)
    then show ?thesis using assms(1) c a Some by (simp add: readQuestion_def)
  qed
qed

lemma mapO_Some_iff:
  "mapO f xs = Some ys \<longleftrightarrow> length ys = length xs \<and> (\<forall>k < length xs. f (xs ! k) = Some (ys ! k))"
proof (induction xs arbitrary: ys)
  case Nil
  show ?case by auto
next
  case (Cons x xs)
  show ?case
  proof (cases ys)
    case Nil
    then show ?thesis by (auto split: option.splits)
  next
    case (Cons y ys')
    show ?thesis
      using Cons.IH [of ys'] by (auto simp: Cons less_Suc_eq_0_disj split: option.splits)
  qed
qed

lemma mapO_cong_Some:
  assumes "mapO f xs = Some ys" and "\<And>x y. x \<in> set xs \<Longrightarrow> f x = Some y \<Longrightarrow> g x = Some y"
  shows "mapO g xs = Some ys"
  using assms by (auto simp: mapO_Some_iff)

lemma mapO_all_Some:
  assumes "mapO f xs = Some ys" and "x \<in> set xs"
  shows "\<exists>y. f x = Some y"
  using assms by (auto simp: mapO_Some_iff in_set_conv_nth)

lemma readSurvey_cells:
  assumes "readSurvey h a = Some sv"
  obtains d qa qas where "cellAt h a = Some (SurveyObj (title sv) d qa)"
    and "description sv = d"
    and "cellAt h qa = Some (QuestionArr qas)"
    and "mapO (readQuestion h) qas = Some (questions sv)"
  using assms
  by (auto simp: readSurvey_def split: option.splits cell.splits)

lemma readSurvey_append:
  assumes "readSurvey h a = Some sv"
  shows "readSurvey (h @ e) a = Some sv"
proof -
  obtain d qa qas where c: "cellAt h a = Some (SurveyObj (title sv) d qa)"
    and d: "description sv = d"
    and q: "cellAt h qa = Some (QuestionArr qas)"
    and m: "mapO (readQuestion h) qas = Some (questions sv)"
    using assms by (rule readSurvey_cells)
  have c': "cellAt (h @ e) a = Some (SurveyObj (title sv) d qa)"
    using c cellAt_append [OF cellAt_Some_less [OF c]] by simp
  have q': "cellAt (h @ e) qa = Some (QuestionArr qas)"
    using q cellAt_append [OF cellAt_Some_less [OF q]] by simp
  have m': "mapO (readQuestion (h @ e)) qas = Some (questions sv)"
    using m by (rule mapO_cong_Some) (rule readQuestion_append)
  show ?thesis
    using c' q' m' d by (simp add: readSurvey_def)
qed

lemma surveyCells_append:
  assumes "readSurvey h a = Some sv"
  shows "surveyCells (h @ e) a = surveyCells h a"
proof -
  obtain d qa qas where c: "cellAt h a = Some (SurveyObj (title sv) d qa)"
    and q: "cellAt h qa = Some (QuestionArr qas)"
    and m: "mapO (readQuestion h) qas = Some (questions sv)"
    using assms by (rule readSurvey_cells)
  have c': "cellAt (h @ e) a = Some (SurveyObj (title sv) d qa)"
    using c cellAt_append [OF cellAt_Some_less [OF c]] by simp
  have q': "cellAt (h @ e) qa = Some (QuestionArr qas)"
    using q cellAt_append [OF cellAt_Some_less [OF q]] by simp
  have mq: "map (questionCells (h @ e)) qas = map (questionCells h) qas"
  proof (rule map_cong [OF refl])
    fix x assume "x \<in> set qas"
    then obtain y where "readQuestion h x = Some y"
      using mapO_all_Some [OF m] by blast
    then show "questionCells (h @ e) x = questionCells h x"
      by (rule questionCells_append)
  qed
  have cc: "concat (map (questionCells (h @ e)) qas) = concat (map (questionCells h) qas)"
    by (simp only: mq)
  show ?thesis
    by (simp add: surveyCells_def c c' q q' cc)
qed

lemma surveyCells_bound:
  assumes "readSurvey h a = Some sv"
  shows "set (surveyCells h a) \<subseteq> {..<length h}"
proof -
  obtain d qa qas where c: "cellAt h a = Some (SurveyObj (title sv) d qa)"
    and q: "cellAt h qa = Some (QuestionArr qas)"
    and m: "mapO (readQuestion h) qas = Some (questions sv)"
    using assms by (rule readSurvey_cells)
  have "\<forall>x \<in> set qas. set (questionCells h x) \<subseteq> {..<length h}"
    using mapO_all_Some [OF m] questionCells_bound by blast
  then show ?thesis
    using c q cellAt_Some_less [OF c] cellAt_Some_less [OF q]
    by (auto simp: surveyCells_def)
qed

lemma readSurvey_update:
  assumes "readSurvey h a = Some sv" and "b \<notin> set (surveyCells h a)"
  shows "readSurvey (h[b := c]) a = Some sv"
proof -
  obtain d qa qas where c: "cellAt h a = Some (SurveyObj (title sv) d qa)"
    and d: "description sv = d"
    and q: "cellAt h qa = Some (QuestionArr qas)"
    and m: "mapO (readQuestion h) qas = Some (questions sv)"
    using assms(1) by (rule readSurvey_cells)
  have cells: "surveyCells h a = a # qa # concat (map (questionCells h) qas)"
    using c q by (simp add: surveyCells_def)
  have ba: "b \<noteq> a" and bq: "b \<noteq> qa" and bs: "\<forall>x \<in> set qas. b \<notin> set (questionCells h x)"
    using assms(2) cells by auto
  have c': "cellAt (h[b := c]) a = Some (SurveyObj (title sv) d qa)"
    using c cellAt_update [OF ba] by simp
  have q': "cellAt (h[b := c]) qa = Some (QuestionArr qas)"
    using q cellAt_update [OF bq] by simp
  have m': "mapO (readQuestion (h[b := c])) qas = Some (questions sv)"
    using m
  proof (rule mapO_cong_Some)
    fix x y assume "x \<in> set qas" and "readQuestion h x = Some y"
    then show "readQuestion (h[b := c]) x = Some y"
      using bs readQuestion_update by blast
  qed
  show ?thesis
    using c' q' m' d by (simp add: readSurvey_def)
qed

lemma allocQuestion_props:
  assumes "allocQuestion q h = (a, h')"
  shows "\<exists>e. h' = h @ e" and "readQuestion h' a = Some q"
    and "set (questionCells h' a) \<subseteq> {length h..<length h'}"
proof -
  show "\<exists>e. h' = h @ e"
    using assms by (auto simp: allocQuestion_def alloc_def split: option.splits)
  show "readQuestion h' a = Some q"
    using assms
    by (auto simp: allocQuestion_def alloc_def readQuestion_def cellAt_def nth_append
        split: option.splits)
  show "set (questionCells h' a) \<subseteq> {length h..<length h'}"
    using assms
    by (auto simp: allocQuestion_def alloc_def questionCells_def cellAt_def nth_append
        split: option.splits)
qed

lemma allocQuestions_props:
  assumes "allocQuestions qs h = (as, h')"
  shows "(\<exists>e. h' = h @ e) \<and> mapO (readQuestion h') as = Some qs
         \<and> (\<forall>a \<in> set as. set (questionCells h' a) \<subseteq> {length h..<length h'})"
  using assms
proof (induction qs arbitrary: h as h')
  case Nil
  then show ?case by simp
next
  case (Cons q qs)
  obtain a h1 where q: "allocQuestion q h = (a, h1)"
    by (cases "allocQuestion q h")
  obtain as' h2 where r: "allocQuestions qs h1 = (as', h2)"
    by (cases "allocQuestions qs h1")
  have eq: "as = a # as'" "h' = h2"
    using Cons.prems q r by simp_all
  obtain e1 where e1: "h1 = h @ e1"
    using allocQuestion_props(1) [OF q] by blast
  have ih: "(\<exists>e. h2 = h1 @ e) \<and> mapO (readQuestion h2) as' = Some qs
         \<and> (\<forall>a \<in> set as'. set (questionCells h2 a) \<subseteq> {length h1..<length h2})"
    using Cons.IH [OF r] .
  then obtain e2 where e2: "h2 = h1 @ e2" by blast
  have ra: "readQuestion h2 a = Some q"
    using readQuestion_append [OF allocQuestion_props(2) [OF q]] e2 by simp
  have ca: "set (questionCells h2 a) \<subseteq> {length h..<length h2}"
    using questionCells_append [OF allocQuestion_props(2) [OF q], of e2]
      allocQuestion_props(3) [OF q] e2 by auto
  have cs: "\<forall>x \<in> set as'. set (questionCells h2 x) \<subseteq> {length h..<length h2}"
    using ih e1 by fastforce
  show ?case
    using e1 e2 ra ca cs ih by (auto simp: eq)
qed

lemma allocSurvey_props:
  assumes "allocSurvey sv h = (a, h')"
  shows "\<exists>e. h' = h @ e" and "readSurvey h' a = Some sv"
    and "set (surveyCells h' a) \<subseteq> {length h..<length h'}"
proof -
  obtain qas h1 where q: "allocQuestions (questions sv) h = (qas, h1)"
    by (cases "allocQuestions (questions sv) h")
  obtain e1 where e1: "h1 = h @ e1"
    and m: "mapO (readQuestion h1) qas = Some (questions sv)"
    and cs: "\<forall>x \<in> set qas. set (questionCells h1 x) \<subseteq> {length h..<length h1}"
    using allocQuestions_props [OF q] by blast
  let ?e = "[QuestionArr qas, SurveyObj (title sv) (description sv) (length h1)]"
  have h': "h' = h1 @ ?e" and a: "a = Suc (length h1)"
    using assms q by (simp_all add: allocSurvey_def alloc_def)
  show "\<exists>e. h' = h @ e"
    using h' e1 by simp
  have ca: "cellAt h' a = Some (SurveyObj (title sv) (description sv) (length h1))"
    by (simp add: h' a cellAt_def nth_append)
  have cq: "cellAt h' (length h1) = Some (QuestionArr qas)"
    by (simp add: h' cellAt_def nth_append)
  have m': "mapO (readQuestion h') qas = Some (questions sv)"
    unfolding h' using m by (rule mapO_cong_Some) (rule readQuestion_append)
  show "readSurvey h' a = Some sv"
    using ca cq m' by (simp add: readSurvey_def)
  have "\<forall>x \<in> set qas. set (questionCells h' x) \<subseteq> {length h..<length h'}"
  proof
    fix x assume x: "x \<in> set qas"
    then obtain y where "readQuestion h1 x = Some y"
      using mapO_all_Some [OF m] by blast
    then have "questionCells h' x = questionCells h1 x"
      unfolding h' by (rule questionCells_append)
    then show "set (questionCells h' x) \<subseteq> {length h..<length h'}"
      using cs x h' by fastforce
  qed
  then show "set (surveyCells h' a) \<subseteq> {length h..<length h'}"
    using ca cq e1 by (auto simp: surveyCells_def a h')
qed

lemma mapO_map:
  "(\<And>x. x \<in> set xs \<Longrightarrow> f (g x) = Some x) \<Longrightarrow> mapO f (map g xs) = Some xs"
  by (induction xs) simp_all

lemma typeOfName_typeName: "typeOfName (typeName ty) = Some ty"
  by (cases ty) (simp_all add: typeName_def typeOfName_def)

lemma questionOfJson_questionJson: "questionOfJson (questionJson q) = Some q"
proof (cases "q_options q")
  case None
  then show ?thesis
    by (simp add: questionJson_def typeOfName_typeName)
next
  case (Some os)
  have "mapO stringOfJson (map JStr os) = Some os"
    by (rule mapO_map) simp
  then show ?thesis
    using Some by (simp add: questionJson_def typeOfName_typeName)
qed

lemma surveyOfJson_surveyJson: "surveyOfJson (surveyJson sv) = Some sv"
proof -
  have "mapO questionOfJson (map questionJson (questions sv)) = Some (questions sv)"
    by (rule mapO_map) (rule questionOfJson_questionJson)
  then show ?thesis
    by (simp add: surveyJson_def)
qed

lemma readQuestion_agree:
  assumes "readQuestion h a = Some q"
    and "\<forall>b \<in> set (questionCells h a). cellAt h' b = cellAt h b"
  shows "readQuestion h' a = Some q" and "questionCells h' a = questionCells h a"
proof -
  obtain i t ty oo where c: "cellAt h a = Some (QuestionObj i t ty oo)"
    using assms(1) by (auto simp: readQuestion_def split: option.splits cell.splits)
  have a: "cellAt h' a = cellAt h a"
    using assms(2) by (simp add: questionCells_def)
  show "questionCells h' a = questionCells h a"
    using a by (simp add: questionCells_def)
  show "readQuestion h' a = Some q"
  proof (cases oo)
    case None
    then show ?thesis using assms(1) c a by (simp add: readQuestion_def)
  next
    case (Some oa)
    then have "cellAt h' oa = cellAt h oa"
      using assms(2) c by (simp add: questionCells_def)
    then show ?thesis using assms(1) c a Some by (simp add: readQuestion_def)
  qed
qed

lemma readSurvey_agree:
  assumes "readSurvey h a = Some sv"
    and "\<forall>b \<in> set (surveyCells h a). cellAt h' b = cellAt h b"
  shows "readSurvey h' a = Some sv" and "surveyCells h' a = surveyCells h a"
proof -
  obtain d qa qas where c: "cellAt h a = Some (SurveyObj (title sv) d qa)"
    and d: "description sv = d"
    and q: "cellAt h qa = Some (QuestionArr qas)"
    and m: "mapO (readQuestion h) qas = Some (questions sv)"
    using assms(1) by (rule readSurvey_cells)
  have cells: "surveyCells h a = a # qa # concat (map (questionCells h) qas)"
    using c q by (simp add: surveyCells_def)
  have c': "cellAt h' a = Some (SurveyObj (title sv) d qa)"
    using assms(2) c cells by simp
  have q': "cellAt h' qa = Some (QuestionArr qas)"
    using assms(2) q cells by simp
  have each: "\<forall>x \<in> set qas. \<forall>b \<in> set (questionCells h x). cellAt h' b = cellAt h b"
    using assms(2) cells by auto
  have m': "mapO (readQuestion h') qas = Some (questions sv)"
    using m
  proof (rule mapO_cong_Some)
    fix x y assume "x \<in> set qas" and "readQuestion h x = Some y"
    then show "readQuestion h' x = Some y"
      using each readQuestion_agree(1) by blast
  qed
  show "readSurvey h' a = Some sv"
    using c' q' m' d by (simp add: readSurvey_def)
  have mq: "map (questionCells h') qas = map (questionCells h) qas"
  proof (rule map_cong [OF refl])
    fix x assume x: "x \<in> set qas"
    then obtain y where "readQuestion h x = Some y"
      using mapO_all_Some [OF m] by blast
    then show "questionCells h' x = questionCells h x"
      using each x readQuestion_agree(2) by blast
  qed
  have cc: "concat (map (questionCells h') qas) = concat (map (questionCells h) qas)"
    by (simp only: mq)
  show "surveyCells h' a = surveyCells h a"
    by (simp add: surveyCells_def c c' q q' cc)
qed

lemma cells_kept_append:
  assumes "readSurvey h a = Some sv"
  shows "list_all (\<lambda>b. cellAt (h @ e) b = cellAt h b) (surveyCells h a)"
proof -
  have "\<forall>b \<in> set (surveyCells h a). b < length h"
    using surveyCells_bound [OF assms] by auto
  then show ?thesis
    by (simp add: list_all_iff cellAt_append)
qed

lemma jsonCopy_props:
  assumes "readSurvey h a = Some sv"
  obtains b h' where "jsonCopy h a = Some (b, h')"
    and "readSurvey h' b = Some sv"
    and "readSurvey h' a = Some sv"
    and "surveyCells h' a = surveyCells h a"
    and "set (surveyCells h' b) \<subseteq> {length h..<length h'}"
proof -
  obtain b h' where al: "allocSurvey sv h = (b, h')"
    by (cases "allocSurvey sv h")
  obtain e where e: "h' = h @ e"
    using allocSurvey_props(1) [OF al] by blast
  have "jsonCopy h a = Some (b, h')"
    using assms al
    by (simp add: jsonCopy_def stringifySurvey_def parseSurvey_def surveyOfJson_surveyJson)
  moreover have "readSurvey h' b = Some sv"
    using allocSurvey_props(2) [OF al] .
  moreover have "readSurvey h' a = Some sv"
    unfolding e using assms by (rule readSurvey_append)
  moreover have "surveyCells h' a = surveyCells h a"
    unfolding e using assms by (rule surveyCells_append)
  moreover have "set (surveyCells h' b) \<subseteq> {length h..<length h'}"
    using allocSurvey_props(3) [OF al] .
  ultimately show ?thesis
    using that by blast
qed

lemma resetSurveyForm_props:
  shows "\<exists>e. objects (resetSurveyForm True st) = objects st @ e"
    and "readSurvey (objects (resetSurveyForm True st)) (surveyRef (resetSurveyForm True st))
           = Some \<lparr>title = ''Untitled Survey'', description = [], questions = []\<rparr>"
proof -
  let ?u = "\<lparr>title = ''Untitled Survey'', description = [], questions = []\<rparr>"
  obtain a h where al: "allocSurvey ?u (objects st) = (a, h)"
    by (cases "allocSurvey ?u (objects st)")
  have o: "objects (resetSurveyForm True st) = h" "surveyRef (resetSurveyForm True st) = a"
    using al by (simp_all add: resetSurveyForm_def)
  show "\<exists>e. objects (resetSurveyForm True st) = objects st @ e"
    using allocSurvey_props(1) [OF al] by (simp add: o)
  show "readSurvey (objects (resetSurveyForm True st)) (surveyRef (resetSurveyForm True st)) = Some ?u"
    using allocSurvey_props(2) [OF al] by (simp add: o)
qed

lemma demoTemplateState_reads:
  "readSurvey (objects demoTemplateState) (surveyRef demoTemplateState) = Some demoSurvey"
proof -
  have "allocSurvey demoSurvey [] = (surveyRef demoTemplateState, objects demoTemplateState)"
    by (simp add: demoTemplateState_def)
  then show ?thesis
    by (rule allocSurvey_props(2))
qed

text \<open>
  Claim C9. Let the state hold the survey \<open>sv\<close>, and let the name of the template not be
  blank. Then \<open>saveTemplate\<close> appends one template \<open>t\<close> whose snapshot reads as \<open>sv\<close> and
  shares no object with the survey of the state. Whatever happens to the state afterwards,
  as long as the objects of the snapshot are left as they are (the survey may be edited,
  reset or replaced, and other objects written), loading \<open>t\<close>, once the operator confirms,
  leaves a survey that reads as \<open>sv\<close>: the same title, description and sequence of
  questions with their ids, texts, types and options. The snapshot still reads as \<open>sv\<close>.
  No object of the loaded survey is an object of the snapshot, so that writing to any
  object of the loaded survey leaves the snapshot as it is.
\<close>

theorem template_round_trip:
  assumes "readSurvey (objects st) (surveyRef st) = Some sv"
    and "\<not> list_all isWhiteSpace (templateNameInput st)"
  shows "\<exists>st1 t.
           saveTemplate newId now st = Some st1
         \<and> savedTemplates st1 = savedTemplates st @ [t]
         \<and> readSurvey (objects st1) (t_survey t) = Some sv
         \<and> readSurvey (objects st1) (surveyRef st1) = Some sv
         \<and> set (surveyCells (objects st1) (t_survey t))
              \<inter> set (surveyCells (objects st1) (surveyRef st1)) = {}
         \<and> (\<forall>st'. list_all (\<lambda>a. cellAt (objects st') a = cellAt (objects st1) a)
                       (surveyCells (objects st1) (t_survey t))
               \<longrightarrow> (\<exists>st2. loadTemplate True t st' = Some st2
                      \<and> readSurvey (objects st2) (surveyRef st2) = Some sv
                      \<and> readSurvey (objects st2) (t_survey t) = Some sv
                      \<and> set (surveyCells (objects st2) (surveyRef st2))
                           \<inter> set (surveyCells (objects st2) (t_survey t)) = {}
                      \<and> (\<forall>a \<in> set (surveyCells (objects st2) (surveyRef st2)). \<forall>c.
                            readSurvey ((objects st2)[a := c]) (t_survey t) = Some sv)))"
proof -
  let ?h = "objects st"
  obtain b h1 where c1: "jsonCopy ?h (surveyRef st) = Some (b, h1)"
    and r1: "readSurvey h1 b = Some sv"
    and r1a: "readSurvey h1 (surveyRef st) = Some sv"
    and k1: "surveyCells h1 (surveyRef st) = surveyCells ?h (surveyRef st)"
    and s1: "set (surveyCells h1 b) \<subseteq> {length ?h..<length h1}"
    using jsonCopy_props [OF assms(1)] by metis
  define t where "t = \<lparr>t_id = newId, t_name = templateNameInput st, t_survey = b, t_createdAt = now\<rparr>"
  define st1 where "st1 = st\<lparr>objects := h1,
      savedTemplates := savedTemplates st @ [t],
      storedTemplates := map (serialiseTemplate h1) (savedTemplates st @ [t]),
      isSaveModalOpen := False\<rparr>"
  have save: "saveTemplate newId now st = Some st1"
    using assms(2) c1 by (simp add: saveTemplate_def Let_def st1_def t_def)
  have tl: "savedTemplates st1 = savedTemplates st @ [t]"
    by (simp add: st1_def)
  have tb: "t_survey t = b"
    by (simp add: t_def)
  have o1: "objects st1 = h1" "surveyRef st1 = surveyRef st"
    by (simp_all add: st1_def)
  have live: "set (surveyCells h1 b) \<inter> set (surveyCells h1 (surveyRef st)) = {}"
    using s1 k1 surveyCells_bound [OF assms(1)] by fastforce
  have later: "\<exists>st2. loadTemplate True t st' = Some st2
                      \<and> readSurvey (objects st2) (surveyRef st2) = Some sv
                      \<and> readSurvey (objects st2) (t_survey t) = Some sv
                      \<and> set (surveyCells (objects st2) (surveyRef st2))
                           \<inter> set (surveyCells (objects st2) (t_survey t)) = {}
                      \<and> (\<forall>a \<in> set (surveyCells (objects st2) (surveyRef st2)). \<forall>c.
                            readSurvey ((objects st2)[a := c]) (t_survey t) = Some sv)"
    if kept: "list_all (\<lambda>a. cellAt (objects st') a = cellAt h1 a) (surveyCells h1 b)" for st'
  proof -
    let ?g = "objects st'"
    have ag: "\<forall>a \<in> set (surveyCells h1 b). cellAt ?g a = cellAt h1 a"
      using kept by (simp add: list_all_iff)
    have rg: "readSurvey ?g b = Some sv"
      using readSurvey_agree(1) [OF r1 ag] .
    obtain d h2 where c2: "jsonCopy ?g b = Some (d, h2)"
      and r2: "readSurvey h2 d = Some sv"
      and r2b: "readSurvey h2 b = Some sv"
      and k2: "surveyCells h2 b = surveyCells ?g b"
      and s2: "set (surveyCells h2 d) \<subseteq> {length ?g..<length h2}"
      using jsonCopy_props [OF rg] by metis
    define st2 where "st2 = st'\<lparr>objects := h2, surveyRef := d, isLoadModalOpen := False\<rparr>"
    have load: "loadTemplate True t st' = Some st2"
      using c2 by (simp add: loadTemplate_def tb st2_def)
    have o2: "objects st2 = h2" "surveyRef st2 = d"
      by (simp_all add: st2_def)
    have disj: "set (surveyCells h2 d) \<inter> set (surveyCells h2 b) = {}"
      using s2 k2 surveyCells_bound [OF rg] by fastforce
    have frame: "\<forall>a \<in> set (surveyCells h2 d). \<forall>c. readSurvey (h2[a := c]) b = Some sv"
    proof (intro ballI allI)
      fix a c assume "a \<in> set (surveyCells h2 d)"
      then have "a \<notin> set (surveyCells h2 b)"
        using disj by blast
      then show "readSurvey (h2[a := c]) b = Some sv"
        using readSurvey_update [OF r2b] by blast
    qed
    show ?thesis
      using load r2 r2b disj frame by (auto simp: o2 tb)
  qed
  show ?thesis
    using save tl r1 r1a live later by (auto simp: o1 tb)
qed

text \<open>
  Claim C9 on the demo survey: the template is saved, the form is reset to an untitled
  survey without questions, and the template is loaded.
\<close>

theorem template_round_trip_witness:
  "readSurvey (objects demoTemplateState) (surveyRef demoTemplateState) = Some demoSurvey
   \<and> \<not> list_all isWhiteSpace (templateNameInput demoTemplateState)
   \<and> (\<exists>st1 t st2.
           saveTemplate ''t1'' 1 demoTemplateState = Some st1
         \<and> savedTemplates st1 = savedTemplates demoTemplateState @ [t]
         \<and> list_all (\<lambda>a. cellAt (objects (resetSurveyForm True st1)) a = cellAt (objects st1) a)
              (surveyCells (objects st1) (t_survey t))
         \<and> readSurvey (objects (resetSurveyForm True st1)) (surveyRef (resetSurveyForm True st1))
              = Some \<lparr>title = ''Untitled Survey'', description = [], questions = []\<rparr>
         \<and> loadTemplate True t (resetSurveyForm True st1) = Some st2
         \<and> readSurvey (objects st2) (surveyRef st2) = Some demoSurvey)"
proof -
  have n: "\<not> list_all isWhiteSpace (templateNameInput demoTemplateState)"
    by (simp add: demoTemplateState_def isWhiteSpace_def)
  from template_round_trip [OF demoTemplateState_reads n, of "''t1''" 1]
  obtain st1 t where save: "saveTemplate ''t1'' 1 demoTemplateState = Some st1"
    and tl: "savedTemplates st1 = savedTemplates demoTemplateState @ [t]"
    and snap: "readSurvey (objects st1) (t_survey t) = Some demoSurvey"
    and later: "\<forall>st'. list_all (\<lambda>a. cellAt (objects st') a = cellAt (objects st1) a)
                       (surveyCells (objects st1) (t_survey t))
               \<longrightarrow> (\<exists>st2. loadTemplate True t st' = Some st2
                      \<and> readSurvey (objects st2) (surveyRef st2) = Some demoSurvey
                      \<and> readSurvey (objects st2) (t_survey t) = Some demoSurvey
                      \<and> set (surveyCells (objects st2) (surveyRef st2))
                           \<inter> set (surveyCells (objects st2) (t_survey t)) = {}
                      \<and> (\<forall>a \<in> set (surveyCells (objects st2) (surveyRef st2)). \<forall>c.
                            readSurvey ((objects st2)[a := c]) (t_survey t) = Some demoSurvey))"
    by (elim exE conjE)
  obtain e where e: "objects (resetSurveyForm True st1) = objects st1 @ e"
    using resetSurveyForm_props(1) by blast
  have kept: "list_all (\<lambda>a. cellAt (objects (resetSurveyForm True st1)) a = cellAt (objects st1) a)
              (surveyCells (objects st1) (t_survey t))"
    unfolding e using snap by (rule cells_kept_append)
  obtain st2 where load: "loadTemplate True t (resetSurveyForm True st1) = Some st2"
    and again: "readSurvey (objects st2) (surveyRef st2) = Some demoSurvey"
    using later kept by blast
  show ?thesis
    using demoTemplateState_reads n save tl kept resetSurveyForm_props(2) [of st1] load again
    by blast
qed

end
